theory Spec2Isabelle
  imports Complex_Main
begin

section \<open>Values and errors\<close>

text \<open>
  The database functions of the migration and the service functions of
  \<^verbatim>\<open>trainService.ts\<close> are embedded as functions on the rows of the tables they read and
  write.  SQL \<^verbatim>\<open>integer\<close> is a 32-bit type whose arithmetic raises
  \<^verbatim>\<open>integer out of range\<close> instead of wrapping; it is modelled as \<open>int\<close> with that check
  written out.  Amounts (SQL \<^verbatim>\<open>numeric\<close>, JavaScript \<^verbatim>\<open>number\<close>) are modelled as exact
  rationals; the binary rounding of JavaScript's doubles is not modelled.  A column that
  the TypeScript row types declare as \<^verbatim>\<open>number\<close> or \<^verbatim>\<open>string\<close> is taken to be
  \<^verbatim>\<open>NOT NULL\<close>; \<^verbatim>\<open>admin.total_revenue\<close>, which the service reads with a
  \<^verbatim>\<open>|| 0\<close> fallback, is nullable.
\<close>

datatype postgrest_error = PostgrestError (err_code: string) (err_message: string)

definition integer_out_of_range :: postgrest_error where
  "integer_out_of_range = PostgrestError ''22003'' ''integer out of range''"

definition int4 :: "int \<Rightarrow> bool" where
  "int4 x \<longleftrightarrow> - 2147483648 \<le> x \<and> x \<le> 2147483647"

definition int4_plus :: "int \<Rightarrow> int \<Rightarrow> postgrest_error + int" where
  "int4_plus a b = (if int4 (a + b) then Inr (a + b) else Inl integer_out_of_range)"

definition int4_minus :: "int \<Rightarrow> int \<Rightarrow> postgrest_error + int" where
  "int4_minus a b = (if int4 (a - b) then Inr (a - b) else Inl integer_out_of_range)"

section \<open>The train table and the inventory functions\<close>

record train =
  train_id :: string
  total_seats :: int
  available_seats :: int

text \<open>
  \<^verbatim>\<open>UPDATE train SET available_seats = e WHERE train_id = rid\<close>: the expression is
  evaluated on every row that matches; an error in any row aborts the statement.
\<close>

fun update_train_available_seats ::
  "(train \<Rightarrow> postgrest_error + int) \<Rightarrow> string \<Rightarrow> train list \<Rightarrow> postgrest_error + train list" where
  "update_train_available_seats e rid [] = Inr []"
| "update_train_available_seats e rid (t # ts) =
     (if train_id t = rid then
        (case e t of
           Inl err \<Rightarrow> Inl err
         | Inr v \<Rightarrow>
             (case update_train_available_seats e rid ts of
                Inl err \<Rightarrow> Inl err
              | Inr ts' \<Rightarrow> Inr (t\<lparr>available_seats := v\<rparr> # ts')))
      else
        (case update_train_available_seats e rid ts of
           Inl err \<Rightarrow> Inl err
         | Inr ts' \<Rightarrow> Inr (t # ts')))"

text \<open>
  \<^verbatim>\<open>SELECT ... INTO v FROM train WHERE train_id = rid\<close>: the first matching row, or
  \<^verbatim>\<open>NULL\<close> (here \<open>None\<close>) when no row matches.
\<close>

definition select_train :: "string \<Rightarrow> train list \<Rightarrow> train option" where
  "select_train rid ts = find (\<lambda>t. train_id t = rid) ts"

text \<open>
  \<^verbatim>\<open>decrement(row_id uuid, value integer) RETURNS integer\<close>.  A comparison with
  \<^verbatim>\<open>NULL\<close> is not true, so a missing row takes the \<^verbatim>\<open>ELSE\<close> branch.
\<close>

definition decrement :: "string \<Rightarrow> int \<Rightarrow> train list \<Rightarrow> postgrest_error + (int \<times> train list)" where
  "decrement row_id value trains =
     (let current_value = map_option available_seats (select_train row_id trains);
          not_enough =
            (case update_train_available_seats (\<lambda>t. Inr 0) row_id trains of
               Inl err \<Rightarrow> Inl err
             | Inr trains' \<Rightarrow> Inr (0, trains'))
      in case current_value of
           None \<Rightarrow> not_enough
         | Some c \<Rightarrow>
             if c \<ge> value then
               (case update_train_available_seats (\<lambda>t. int4_minus (available_seats t) value) row_id trains of
                  Inl err \<Rightarrow> Inl err
                | Inr trains' \<Rightarrow>
                    (case int4_minus c value of
                       Inl err \<Rightarrow> Inl err
                     | Inr r \<Rightarrow> Inr (r, trains')))
             else not_enough)"

text \<open>
  \<^verbatim>\<open>increment(row_id uuid, value integer) RETURNS integer\<close>.  With no matching row both
  variables are \<^verbatim>\<open>NULL\<close>: the \<^verbatim>\<open>ELSE\<close> branch is taken, its \<^verbatim>\<open>UPDATE\<close> matches no row,
  and the function returns \<^verbatim>\<open>NULL\<close>.
\<close>

definition increment :: "string \<Rightarrow> int \<Rightarrow> train list \<Rightarrow> postgrest_error + (int option \<times> train list)" where
  "increment row_id value trains =
     (case select_train row_id trains of
        None \<Rightarrow> Inr (None, trains)
      | Some row \<Rightarrow>
          (let current_value = available_seats row; max_value = total_seats row in
           case int4_plus current_value value of
             Inl err \<Rightarrow> Inl err
           | Inr s \<Rightarrow>
               if s \<le> max_value then
                 (case update_train_available_seats (\<lambda>t. int4_plus (available_seats t) value) row_id trains of
                    Inl err \<Rightarrow> Inl err
                  | Inr trains' \<Rightarrow> Inr (Some s, trains'))
               else
                 (case update_train_available_seats (\<lambda>t. Inr max_value) row_id trains of
                    Inl err \<Rightarrow> Inl err
                  | Inr trains' \<Rightarrow> Inr (Some max_value, trains'))))"

section \<open>The trigger functions\<close>

text \<open>
  A trigger function sees \<^verbatim>\<open>TG_OP\<close> together with the row images \<^verbatim>\<open>NEW\<close> and (on an
  update) \<^verbatim>\<open>OLD\<close>.  The functions only have branches for \<^verbatim>\<open>INSERT\<close> and
  \<^verbatim>\<open>UPDATE\<close>.
\<close>

datatype 'r tg_event = INSERT 'r | UPDATE 'r 'r

record booking =
  booking_pnr :: string
  booking_passenger_id :: string
  booking_train_id :: string
  booking_fare_id :: string
  booking_class :: string
  booking_seat_no :: string
  booking_status :: string

record payment =
  payment_pnr :: string
  payment_amount :: rat
  payment_method :: string
  payment_status :: string

record cancellation =
  cancellation_pnr :: string
  refund_amount :: rat
  cancellation_status :: string

record admin =
  username :: string
  password :: string
  total_revenue :: "rat option"

text \<open>
  \<^verbatim>\<open>update_revenue_on_payment()\<close>.  \<^verbatim>\<open>UPDATE admin SET total_revenue = total_revenue +
  NEW.amount\<close> has no \<^verbatim>\<open>WHERE\<close> and rewrites every row; \<^verbatim>\<open>NULL + x\<close> is \<^verbatim>\<open>NULL\<close>.
\<close>

definition add_revenue :: "rat \<Rightarrow> admin list \<Rightarrow> admin list" where
  "add_revenue amount admins =
     map (\<lambda>a. a\<lparr>total_revenue := map_option (\<lambda>r. r + amount) (total_revenue a)\<rparr>) admins"

text \<open>
  \<^verbatim>\<open>UPDATE admin SET total_revenue = total_revenue - x WHERE total_revenue >= x\<close>: a row
  whose revenue is \<^verbatim>\<open>NULL\<close> or below \<open>x\<close> does not match.
\<close>

definition subtract_revenue :: "rat \<Rightarrow> admin list \<Rightarrow> admin list" where
  "subtract_revenue amount admins =
     map (\<lambda>a. case total_revenue a of
                None \<Rightarrow> a
              | Some r \<Rightarrow> if r \<ge> amount then a\<lparr>total_revenue := Some (r - amount)\<rparr> else a)
         admins"

fun update_revenue_on_payment :: "payment tg_event \<Rightarrow> admin list \<Rightarrow> admin list" where
  "update_revenue_on_payment (INSERT new) admins =
     (if payment_status new = ''Successful'' then
        (if admins \<noteq> [] then add_revenue (payment_amount new) admins
         else [\<lparr>username = ''admin'', password = ''admin123'',
                total_revenue = Some (payment_amount new)\<rparr>])
      else admins)"
| "update_revenue_on_payment (UPDATE old new) admins =
     (if payment_status new = ''Successful'' \<and> payment_status old \<noteq> ''Successful'' then
        (if admins \<noteq> [] then add_revenue (payment_amount new) admins
         else [\<lparr>username = ''admin'', password = ''admin123'',
                total_revenue = Some (payment_amount new)\<rparr>])
      else if payment_status old = ''Successful'' \<and> payment_status new \<noteq> ''Successful'' then
        subtract_revenue (payment_amount old) admins
      else admins)"

fun update_revenue_on_refund :: "cancellation tg_event \<Rightarrow> admin list \<Rightarrow> admin list" where
  "update_revenue_on_refund (INSERT new) admins =
     (if cancellation_status new = ''Processed'' then subtract_revenue (refund_amount new) admins
      else admins)"
| "update_revenue_on_refund (UPDATE old new) admins = admins"

text \<open>
  \<^verbatim>\<open>update_train_seats()\<close>: the seat count is changed by plain arithmetic in the
  \<^verbatim>\<open>UPDATE\<close> statements; the function does not call \<open>decrement\<close> or \<open>increment\<close>.
\<close>

fun update_train_seats :: "booking tg_event \<Rightarrow> train list \<Rightarrow> postgrest_error + train list" where
  "update_train_seats (INSERT new) trains =
     (if booking_status new = ''Confirmed'' then
        update_train_available_seats (\<lambda>t. int4_minus (available_seats t) 1)
          (booking_train_id new) trains
      else Inr trains)"
| "update_train_seats (UPDATE old new) trains =
     (if booking_status old \<noteq> ''Confirmed'' \<and> booking_status new = ''Confirmed'' then
        update_train_available_seats (\<lambda>t. int4_minus (available_seats t) 1)
          (booking_train_id new) trains
      else if booking_status old = ''Confirmed'' \<and> booking_status new = ''Cancelled'' then
        update_train_available_seats (\<lambda>t. int4_plus (available_seats t) 1)
          (booking_train_id new) trains
      else Inr trains)"

subsection \<open>Sequences of writes\<close>

text \<open>
  The life of one booking row: it is inserted as \<open>b\<close> and then rewritten as each element
  of \<open>bs\<close> in turn, so \<^verbatim>\<open>OLD\<close> of every update is \<^verbatim>\<open>NEW\<close> of the write before it.
\<close>

fun row_updates :: "'r \<Rightarrow> 'r list \<Rightarrow> 'r tg_event list" where
  "row_updates b [] = []"
| "row_updates b (n # ns) = UPDATE b n # row_updates n ns"

definition row_writes :: "'r \<Rightarrow> 'r list \<Rightarrow> 'r tg_event list" where
  "row_writes b bs = INSERT b # row_updates b bs"

text \<open>The trigger runs with each write; the run ends at the first write whose trigger raises.\<close>

fun booking_writes :: "booking tg_event list \<Rightarrow> train list \<Rightarrow> postgrest_error + train list" where
  "booking_writes [] trains = Inr trains"
| "booking_writes (ev # evs) trains =
     (case update_train_seats ev trains of
        Inl err \<Rightarrow> Inl err
      | Inr trains' \<Rightarrow> booking_writes evs trains')"

datatype revenue_write = Payment_write "payment tg_event" | Cancellation_write "cancellation tg_event"

fun apply_revenue_write :: "revenue_write \<Rightarrow> admin list \<Rightarrow> admin list" where
  "apply_revenue_write (Payment_write ev) admins = update_revenue_on_payment ev admins"
| "apply_revenue_write (Cancellation_write ev) admins = update_revenue_on_refund ev admins"

fun revenue_writes :: "revenue_write list \<Rightarrow> admin list \<Rightarrow> admin list" where
  "revenue_writes [] admins = admins"
| "revenue_writes (w # ws) admins = revenue_writes ws (apply_revenue_write w admins)"

subsection \<open>Notions used in the properties\<close>

text \<open>
  The edges of a booking's status history \<open>s\<^sub>0, s\<^sub>1, \<dots>\<close>: an entry into
  \<^verbatim>\<open>Confirmed\<close> is the insert as \<^verbatim>\<open>Confirmed\<close> or a step from another status to
  \<^verbatim>\<open>Confirmed\<close>; a cancellation edge is a step from \<^verbatim>\<open>Confirmed\<close> to \<^verbatim>\<open>Cancelled\<close>.
\<close>

fun steps_into_confirmed :: "string list \<Rightarrow> nat" where
  "steps_into_confirmed (a # b # ss) =
     (if a \<noteq> ''Confirmed'' \<and> b = ''Confirmed'' then 1 else 0) + steps_into_confirmed (b # ss)"
| "steps_into_confirmed ss = 0"

definition confirmed_entries :: "string list \<Rightarrow> nat" where
  "confirmed_entries ss =
     (case ss of [] \<Rightarrow> 0 | s # _ \<Rightarrow> if s = ''Confirmed'' then 1 else 0) + steps_into_confirmed ss"

fun cancelled_after_confirmed :: "string list \<Rightarrow> nat" where
  "cancelled_after_confirmed (a # b # ss) =
     (if a = ''Confirmed'' \<and> b = ''Cancelled'' then 1 else 0) + cancelled_after_confirmed (b # ss)"
| "cancelled_after_confirmed ss = 0"

definition shift_available_seats :: "string \<Rightarrow> int \<Rightarrow> train list \<Rightarrow> train list" where
  "shift_available_seats rid d ts =
     map (\<lambda>x. if train_id x = rid then x\<lparr>available_seats := available_seats x + d\<rparr> else x) ts"

definition set_available_seats :: "string \<Rightarrow> int \<Rightarrow> train list \<Rightarrow> train list" where
  "set_available_seats rid v ts =
     map (\<lambda>x. if train_id x = rid then x\<lparr>available_seats := v\<rparr> else x) ts"

text \<open>The seat effect of one successful write, as a shift of the booked train's count.\<close>

definition seat_effect :: "booking tg_event \<Rightarrow> int" where
  "seat_effect ev =
     (case ev of
        INSERT new \<Rightarrow> (if booking_status new = ''Confirmed'' then - 1 else 0)
      | UPDATE old new \<Rightarrow>
          (if booking_status old \<noteq> ''Confirmed'' \<and> booking_status new = ''Confirmed'' then - 1
           else if booking_status old = ''Confirmed'' \<and> booking_status new = ''Cancelled'' then 1
           else 0))"

definition event_train :: "booking tg_event \<Rightarrow> string" where
  "event_train ev = (case ev of INSERT new \<Rightarrow> booking_train_id new | UPDATE old new \<Rightarrow> booking_train_id new)"

text \<open>
  Every seat count is at least \<open>k\<close> away from both ends of the \<^verbatim>\<open>integer\<close> range, so that
  \<open>k\<close> steps of one seat cannot raise \<^verbatim>\<open>integer out of range\<close>.
\<close>

definition seats_within :: "nat \<Rightarrow> train list \<Rightarrow> bool" where
  "seats_within k ts =
     list_all (\<lambda>t. int4 (available_seats t - int k) \<and> int4 (available_seats t + int k)) ts"

definition seats_in_bounds :: "train list \<Rightarrow> bool" where
  "seats_in_bounds ts = list_all (\<lambda>t. 0 \<le> available_seats t \<and> available_seats t \<le> total_seats t) ts"

definition revenue_nonneg :: "admin list \<Rightarrow> bool" where
  "revenue_nonneg admins =
     list_all (\<lambda>a. case total_revenue a of None \<Rightarrow> True | Some r \<Rightarrow> 0 \<le> r) admins"

fun payment_event_nonneg :: "payment tg_event \<Rightarrow> bool" where
  "payment_event_nonneg (INSERT new) = (0 \<le> payment_amount new)"
| "payment_event_nonneg (UPDATE old new) = (0 \<le> payment_amount old \<and> 0 \<le> payment_amount new)"

fun cancellation_event_nonneg :: "cancellation tg_event \<Rightarrow> bool" where
  "cancellation_event_nonneg (INSERT new) = (0 \<le> refund_amount new)"
| "cancellation_event_nonneg (UPDATE old new) = (0 \<le> refund_amount old \<and> 0 \<le> refund_amount new)"

fun amounts_nonneg :: "revenue_write \<Rightarrow> bool" where
  "amounts_nonneg (Payment_write ev) = payment_event_nonneg ev"
| "amounts_nonneg (Cancellation_write ev) = cancellation_event_nonneg ev"

text \<open>The revenue of every admin row is below \<open>x\<close> (or \<^verbatim>\<open>NULL\<close>).\<close>

definition balance_below :: "rat \<Rightarrow> admin list \<Rightarrow> bool" where
  "balance_below x admins =
     list_all (\<lambda>a. case total_revenue a of None \<Rightarrow> True | Some r \<Rightarrow> r < x) admins"

section \<open>The service and the database it talks to\<close>

text \<open>
  \<^verbatim>\<open>trainService.ts\<close> sends one request after another to the database and inspects the
  \<^verbatim>\<open>{ data, error }\<close> of each.  The world below holds the tables, what the user has been
  shown, and the three things the service cannot determine: whether the \<open>k\<close>-th request
  fails for a reason outside the tables (\<open>server_failure\<close>), the keys the database
  generates (\<open>generated_id\<close>), and \<^verbatim>\<open>Math.random()\<close>.  A request that fails changes no
  table.
\<close>

record passenger =
  passenger_id :: string
  passenger_name :: string
  passenger_age :: rat
  passenger_gender :: string
  passenger_contact :: string

record fare =
  fare_id :: string
  fare_train_id :: string
  fare_class :: string
  fare_amount :: rat

datatype js_error = Postgrest postgrest_error | Error string

fun js_message :: "js_error \<Rightarrow> string" where
  "js_message (Postgrest e) = err_message e"
| "js_message (Error m) = m"

text \<open>
  \<open>Toast_error m\<close> is \<^verbatim>\<open>toast.error(m)\<close>.  \<open>Toast_cancelled r\<close> stands for the success
  message of \<open>cancelBooking\<close>, which shows the refund \<open>r\<close>; \<^verbatim>\<open>console.error\<close> is not
  modelled.
\<close>

datatype toast = Toast_error string | Toast_cancelled rat

record world =
  train_table :: "train list"
  fare_table :: "fare list"
  passenger_table :: "passenger list"
  booking_table :: "booking list"
  payment_table :: "payment list"
  cancellation_table :: "cancellation list"
  admin_table :: "admin list"
  toasts :: "toast list"
  server_failure :: "nat \<Rightarrow> postgrest_error option"
  request_no :: nat
  generated_id :: "nat \<Rightarrow> string"
  id_no :: nat
  math_random :: "nat \<Rightarrow> rat"
  random_no :: nat

definition request :: "world \<Rightarrow> postgrest_error option \<times> world" where
  "request w = (server_failure w (request_no w), w\<lparr>request_no := Suc (request_no w)\<rparr>)"

definition new_id :: "world \<Rightarrow> string \<times> world" where
  "new_id w = (generated_id w (id_no w), w\<lparr>id_no := Suc (id_no w)\<rparr>)"

definition random :: "world \<Rightarrow> rat \<times> world" where
  "random w = (math_random w (random_no w), w\<lparr>random_no := Suc (random_no w)\<rparr>)"

definition toast_error :: "string \<Rightarrow> world \<Rightarrow> world" where
  "toast_error m w = w\<lparr>toasts := toasts w @ [Toast_error m]\<rparr>"

text \<open>\<^verbatim>\<open>.single()\<close>: the result must be exactly one row, otherwise the request is an error.\<close>

definition not_a_single_row :: postgrest_error where
  "not_a_single_row =
     PostgrestError ''PGRST116'' ''JSON object requested, multiple (or no) rows returned''"

definition single :: "'a list \<Rightarrow> postgrest_error + 'a" where
  "single rows = (case rows of [r] \<Rightarrow> Inr r | _ \<Rightarrow> Inl not_a_single_row)"

subsection \<open>The requests\<close>

record passenger_input =
  name :: string
  age :: rat
  gender :: string
  contact :: string

text \<open>\<^verbatim>\<open>from('passenger').insert({...}).select('passenger_id').single()\<close>\<close>

definition insert_passenger :: "passenger_input \<Rightarrow> world \<Rightarrow> (postgrest_error + string) \<times> world" where
  "insert_passenger p w =
     (case request w of
        (Some err, w1) \<Rightarrow> (Inl err, w1)
      | (None, w1) \<Rightarrow>
          (case new_id w1 of
             (pid, w2) \<Rightarrow>
               (Inr pid,
                w2\<lparr>passenger_table := passenger_table w2 @
                     [\<lparr>passenger_id = pid, passenger_name = name p, passenger_age = age p,
                       passenger_gender = gender p, passenger_contact = contact p\<rparr>]\<rparr>)))"

text \<open>\<^verbatim>\<open>from('fare').select('fare_id').eq('train_id', t).eq('class', c).single()\<close>\<close>

definition select_fare_id :: "string \<Rightarrow> string \<Rightarrow> world \<Rightarrow> (postgrest_error + string) \<times> world" where
  "select_fare_id t c w =
     (case request w of
        (Some err, w1) \<Rightarrow> (Inl err, w1)
      | (None, w1) \<Rightarrow>
          (single (map fare_id
             (filter (\<lambda>f. fare_train_id f = t \<and> fare_class f = c) (fare_table w1))), w1))"

text \<open>\<^verbatim>\<open>from('fare').select('fare_id').eq('train_id', t).limit(1).single()\<close>\<close>

definition select_any_fare_id :: "string \<Rightarrow> world \<Rightarrow> (postgrest_error + string) \<times> world" where
  "select_any_fare_id t w =
     (case request w of
        (Some err, w1) \<Rightarrow> (Inl err, w1)
      | (None, w1) \<Rightarrow>
          (single (take 1 (map fare_id
             (filter (\<lambda>f. fare_train_id f = t) (fare_table w1)))), w1))"

text \<open>
  Modelled from the spec: the \<^verbatim>\<open>CREATE TRIGGER\<close> statements that attach the trigger
  functions to their tables are not part of the sources.  Following sections 4.2 and 4.3
  of the specification, the four writing requests below run \<open>update_train_seats\<close> for
  every booking row written, \<open>update_revenue_on_payment\<close> for every payment row written
  and \<open>update_revenue_on_refund\<close> for every cancellation row written.

  \<^verbatim>\<open>from('booking').insert({...}).select('pnr').single()\<close>; the row trigger may raise, and
  then nothing is written.
\<close>

definition insert_booking ::
  "string \<Rightarrow> string \<Rightarrow> string \<Rightarrow> string \<Rightarrow> string \<Rightarrow> string \<Rightarrow> world
   \<Rightarrow> (postgrest_error + string) \<times> world" where
  "insert_booking pid tid fid cls seat st w =
     (case request w of
        (Some err, w1) \<Rightarrow> (Inl err, w1)
      | (None, w1) \<Rightarrow>
          (case new_id w1 of
             (p, w2) \<Rightarrow>
               (let row = \<lparr>booking_pnr = p, booking_passenger_id = pid, booking_train_id = tid,
                           booking_fare_id = fid, booking_class = cls, booking_seat_no = seat,
                           booking_status = st\<rparr>
                in case update_train_seats (INSERT row) (train_table w2) of
                     Inl err \<Rightarrow> (Inl err, w2)
                   | Inr trains' \<Rightarrow>
                       (Inr p, w2\<lparr>booking_table := booking_table w2 @ [row],
                                  train_table := trains'\<rparr>))))"

text \<open>\<^verbatim>\<open>from('payment').insert({ pnr, amount, payment_method, status })\<close>\<close>

definition insert_payment ::
  "string \<Rightarrow> rat \<Rightarrow> string \<Rightarrow> string \<Rightarrow> world \<Rightarrow> postgrest_error option \<times> world" where
  "insert_payment p amount pm st w =
     (case request w of
        (Some err, w1) \<Rightarrow> (Some err, w1)
      | (None, w1) \<Rightarrow>
          (let row = \<lparr>payment_pnr = p, payment_amount = amount, payment_method = pm,
                      payment_status = st\<rparr>
           in (None, w1\<lparr>payment_table := payment_table w1 @ [row],
                        admin_table := update_revenue_on_payment (INSERT row) (admin_table w1)\<rparr>)))"

text \<open>
  \<^verbatim>\<open>from('booking').update({ booking_status: st }).eq('pnr', p)\<close>: every row with that
  PNR is rewritten, and the row trigger runs for each of them, also when the status it
  is given is the one it has.
\<close>

fun update_booking_rows ::
  "string \<Rightarrow> string \<Rightarrow> booking list \<Rightarrow> train list \<Rightarrow> postgrest_error + (booking list \<times> train list)" where
  "update_booking_rows p st [] trains = Inr ([], trains)"
| "update_booking_rows p st (b # bs) trains =
     (if booking_pnr b = p then
        (case update_train_seats (UPDATE b (b\<lparr>booking_status := st\<rparr>)) trains of
           Inl err \<Rightarrow> Inl err
         | Inr trains' \<Rightarrow>
             (case update_booking_rows p st bs trains' of
                Inl err \<Rightarrow> Inl err
              | Inr (bs', trains'') \<Rightarrow> Inr (b\<lparr>booking_status := st\<rparr> # bs', trains'')))
      else
        (case update_booking_rows p st bs trains of
           Inl err \<Rightarrow> Inl err
         | Inr (bs', trains') \<Rightarrow> Inr (b # bs', trains')))"

definition update_booking_status :: "string \<Rightarrow> string \<Rightarrow> world \<Rightarrow> postgrest_error option \<times> world" where
  "update_booking_status p st w =
     (case request w of
        (Some err, w1) \<Rightarrow> (Some err, w1)
      | (None, w1) \<Rightarrow>
          (case update_booking_rows p st (booking_table w1) (train_table w1) of
             Inl err \<Rightarrow> (Some err, w1)
           | Inr (bs', trains') \<Rightarrow>
               (None, w1\<lparr>booking_table := bs', train_table := trains'\<rparr>)))"

text \<open>\<^verbatim>\<open>from('cancellation').insert({ pnr, refund_amount, status })\<close>\<close>

definition insert_cancellation ::
  "string \<Rightarrow> rat \<Rightarrow> string \<Rightarrow> world \<Rightarrow> postgrest_error option \<times> world" where
  "insert_cancellation p refund st w =
     (case request w of
        (Some err, w1) \<Rightarrow> (Some err, w1)
      | (None, w1) \<Rightarrow>
          (let row = \<lparr>cancellation_pnr = p, refund_amount = refund, cancellation_status = st\<rparr>
           in (None, w1\<lparr>cancellation_table := cancellation_table w1 @ [row],
                        admin_table := update_revenue_on_refund (INSERT row) (admin_table w1)\<rparr>)))"

text \<open>\<^verbatim>\<open>from('admin').select('total_revenue').single()\<close>\<close>

definition select_total_revenue :: "world \<Rightarrow> (postgrest_error + rat option) \<times> world" where
  "select_total_revenue w =
     (case request w of
        (Some err, w1) \<Rightarrow> (Inl err, w1)
      | (None, w1) \<Rightarrow> (single (map total_revenue (admin_table w1)), w1))"

subsection \<open>\<^verbatim>\<open>createBooking\<close>\<close>

record booking_data =
  passengerData :: "passenger_input list"
  trainId :: string
  fareClass :: string
  paymentMethod :: string
  totalAmount :: rat

text \<open>Step 1: the loop over \<^verbatim>\<open>bookingData.passengerData\<close>.\<close>

fun insert_passengers ::
  "passenger_input list \<Rightarrow> string list \<Rightarrow> world \<Rightarrow> (postgrest_error + string list) \<times> world" where
  "insert_passengers [] passengerIds w = (Inr passengerIds, w)"
| "insert_passengers (p # ps) passengerIds w =
     (case insert_passenger p w of
        (Inl passengerError, w') \<Rightarrow> (Inl passengerError, w')
      | (Inr pid, w') \<Rightarrow> insert_passengers ps (passengerIds @ [pid]) w')"

text \<open>Step 2: the fare of the selected class, or else any fare of the train.\<close>

definition resolve_fare_id :: "booking_data \<Rightarrow> world \<Rightarrow> (postgrest_error + string) \<times> world" where
  "resolve_fare_id bd w =
     (case select_fare_id (trainId bd) (fareClass bd) w of
        (Inl fareError, w') \<Rightarrow> select_any_fare_id (trainId bd) w'
      | (Inr fareId, w') \<Rightarrow> (Inr fareId, w'))"

text \<open>
  The seat number \<^verbatim>\<open>`${fareClass[0]}${Math.floor(Math.random() * 90) + 10}`\<close>.  Indexing
  an empty string gives \<^verbatim>\<open>undefined\<close>, which the template prints as such.
\<close>

fun decimal :: "nat \<Rightarrow> string" where
  "decimal n =
     (if n < 10 then [''0123456789'' ! n]
      else decimal (n div 10) @ [''0123456789'' ! (n mod 10)])"

declare decimal.simps [simp del]

definition number_to_string :: "int \<Rightarrow> string" where
  "number_to_string k = (if k < 0 then ''-'' @ decimal (nat (- k)) else decimal (nat k))"

definition seat_number :: "string \<Rightarrow> rat \<Rightarrow> string" where
  "seat_number cls r =
     (case cls of [] \<Rightarrow> ''undefined'' | c # _ \<Rightarrow> [c]) @ number_to_string (\<lfloor>r * 90\<rfloor> + 10)"

text \<open>Step 3: the loop \<^verbatim>\<open>for (let i = 0; i < passengerIds.length; i++)\<close>, from index \<open>i\<close> on.\<close>

fun insert_bookings ::
  "nat \<Rightarrow> string list \<Rightarrow> booking_data \<Rightarrow> string \<Rightarrow> string list \<Rightarrow> string \<Rightarrow> world
   \<Rightarrow> (postgrest_error + string list \<times> string) \<times> world" where
  "insert_bookings i [] bd fareId bookings firstPnr w = (Inr (bookings, firstPnr), w)"
| "insert_bookings i (pid # pids) bd fareId bookings firstPnr w =
     (case random w of
        (r, w1) \<Rightarrow>
          (case insert_booking pid (trainId bd) fareId (fareClass bd)
                  (seat_number (fareClass bd) r) ''Confirmed'' w1 of
             (Inl bookingError, w2) \<Rightarrow> (Inl bookingError, w2)
           | (Inr p, w2) \<Rightarrow>
               insert_bookings (Suc i) pids bd fareId (bookings @ [p])
                 (if i = 0 then p else firstPnr) w2))"

text \<open>The body of the \<^verbatim>\<open>try\<close> block; \<open>Inl\<close> is the error it throws.\<close>

definition createBooking_body :: "booking_data \<Rightarrow> world \<Rightarrow> (postgrest_error + string) \<times> world" where
  "createBooking_body bd w =
     (case insert_passengers (passengerData bd) [] w of
        (Inl passengerError, w1) \<Rightarrow> (Inl passengerError, w1)
      | (Inr passengerIds, w1) \<Rightarrow>
          (case resolve_fare_id bd w1 of
             (Inl anyFareError, w2) \<Rightarrow> (Inl anyFareError, w2)
           | (Inr fareId, w2) \<Rightarrow>
               (case insert_bookings 0 passengerIds bd fareId [] [] w2 of
                  (Inl bookingError, w3) \<Rightarrow> (Inl bookingError, w3)
                | (Inr (bookings, firstPnr), w3) \<Rightarrow>
                    (case insert_payment firstPnr (totalAmount bd) (paymentMethod bd)
                            ''Successful'' w3 of
                       (Some paymentError, w4) \<Rightarrow> (Inl paymentError, w4)
                     | (None, w4) \<Rightarrow> (Inr firstPnr, w4)))))"

text \<open>The \<^verbatim>\<open>catch\<close> block shows the message and throws the error again.\<close>

definition createBooking :: "booking_data \<Rightarrow> world \<Rightarrow> (js_error + string) \<times> world" where
  "createBooking bd w =
     (case createBooking_body bd w of
        (Inl err, w') \<Rightarrow>
          (Inl (Postgrest err), toast_error (''Failed to create booking: '' @ err_message err) w')
      | (Inr p, w') \<Rightarrow> (Inr p, w'))"

subsection \<open>\<^verbatim>\<open>cancelBooking\<close>\<close>

definition cancelBooking_body :: "string \<Rightarrow> rat \<Rightarrow> world \<Rightarrow> (postgrest_error + unit) \<times> world" where
  "cancelBooking_body p amount w =
     (case update_booking_status p ''Cancelled'' w of
        (Some bookingError, w1) \<Rightarrow> (Inl bookingError, w1)
      | (None, w1) \<Rightarrow>
          (let refundAmount = amount * (9 / 10) in
           case insert_cancellation p refundAmount ''Processed'' w1 of
             (Some cancellationError, w2) \<Rightarrow> (Inl cancellationError, w2)
           | (None, w2) \<Rightarrow> (Inr (), w2\<lparr>toasts := toasts w2 @ [Toast_cancelled refundAmount]\<rparr>)))"

definition cancelBooking :: "string \<Rightarrow> rat \<Rightarrow> world \<Rightarrow> (js_error + unit) \<times> world" where
  "cancelBooking p amount w =
     (case cancelBooking_body p amount w of
        (Inl err, w') \<Rightarrow>
          (Inl (Postgrest err), toast_error (''Failed to cancel booking: '' @ err_message err) w')
      | (Inr u, w') \<Rightarrow> (Inr u, w'))"

subsection \<open>\<^verbatim>\<open>getAdminData\<close>\<close>

record admin_data =
  totalRevenue :: rat

text \<open>\<^verbatim>\<open>data.total_revenue || 0\<close>: \<^verbatim>\<open>null\<close> and \<open>0\<close> are both falsy.\<close>

definition or_zero :: "rat option \<Rightarrow> rat" where
  "or_zero x = (case x of None \<Rightarrow> 0 | Some r \<Rightarrow> if r = 0 then 0 else r)"

definition getAdminData :: "world \<Rightarrow> (js_error + admin_data) \<times> world" where
  "getAdminData w =
     (case select_total_revenue w of
        (Inl err, w') \<Rightarrow> (Inl (Error (''Failed to fetch admin data: '' @ err_message err)), w')
      | (Inr revenue, w') \<Rightarrow> (Inr \<lparr>totalRevenue = or_zero revenue\<rparr>, w'))"

subsection \<open>What the specification says about the refund\<close>

text \<open>\<^verbatim>\<open>Math.round\<close>: the nearest integer, a half rounded up.\<close>

definition Math_round :: "rat \<Rightarrow> rat" where
  "Math_round x = of_int \<lfloor>x + 1 / 2\<rfloor>"

subsection \<open>Example data\<close>

text \<open>A booking row with PNR \<open>p\<close>, on train \<open>rid\<close> and with status \<open>st\<close>.\<close>

definition booking_on :: "string \<Rightarrow> string \<Rightarrow> string \<Rightarrow> booking" where
  "booking_on p rid st =
     \<lparr>booking_pnr = p, booking_passenger_id = ''P1'', booking_train_id = rid,
      booking_fare_id = ''F1'', booking_class = ''Sleeper'', booking_seat_no = ''S10'',
      booking_status = st\<rparr>"

text \<open>
  A world in which no request fails for an outside reason; the database generates the
  keys \<^verbatim>\<open>K\<close>, \<^verbatim>\<open>KK\<close>, \<^verbatim>\<open>KKK\<close>, ... and \<^verbatim>\<open>Math.random()\<close> returns one half.
\<close>

definition quiet_world :: "train list \<Rightarrow> fare list \<Rightarrow> booking list \<Rightarrow> admin list \<Rightarrow> world" where
  "quiet_world ts fs bs as =
     \<lparr>train_table = ts, fare_table = fs, passenger_table = [], booking_table = bs,
      payment_table = [], cancellation_table = [], admin_table = as, toasts = [],
      server_failure = (\<lambda>k. None), request_no = 0,
      generated_id = (\<lambda>k. replicate (Suc k) CHR ''K''), id_no = 0,
      math_random = (\<lambda>k. 1 / 2), random_no = 0\<rparr>"

text \<open>The same world, except that request number \<open>k\<close> is refused by the server.\<close>

definition refused :: postgrest_error where
  "refused = PostgrestError ''42501'' ''permission denied''"

definition failing_at :: "nat \<Rightarrow> world \<Rightarrow> world" where
  "failing_at k w = w\<lparr>server_failure := (\<lambda>j. if j = k then Some refused else None)\<rparr>"

text \<open>
  The scenario of the specification: two passengers book class \<^verbatim>\<open>AC 2 Tier\<close> on a train
  with two free seats.
\<close>

definition example_booking_data :: booking_data where
  "example_booking_data =
     \<lparr>passengerData =
        [\<lparr>name = ''Asha'', age = 34, gender = ''F'', contact = ''asha@example.org''\<rparr>,
         \<lparr>name = ''Ravi'', age = 36, gender = ''M'', contact = ''ravi@example.org''\<rparr>],
      trainId = ''T1'', fareClass = ''AC 2 Tier'', paymentMethod = ''UPI'', totalAmount = 1600\<rparr>"

definition example_world :: world where
  "example_world =
     quiet_world [\<lparr>train_id = ''T1'', total_seats = 2, available_seats = 2\<rparr>]
       [\<lparr>fare_id = ''F1'', fare_train_id = ''T1'', fare_class = ''Sleeper'', fare_amount = 400\<rparr>,
        \<lparr>fare_id = ''F2'', fare_train_id = ''T1'', fare_class = ''AC 2 Tier'', fare_amount = 800\<rparr>]
       [] []"

text \<open>
  A world with one confirmed booking \<^verbatim>\<open>PNR1\<close> on a train with one of two seats free, and
  a revenue of 1000.
\<close>

definition booked_world :: world where
  "booked_world =
     quiet_world [\<lparr>train_id = ''T1'', total_seats = 2, available_seats = 1\<rparr>] []
       [booking_on ''PNR1'' ''T1'' ''Confirmed'']
       [\<lparr>username = ''admin'', password = ''admin123'', total_revenue = Some 1000\<rparr>]"

section \<open>Properties of the inventory functions\<close>

lemma update_no_match:
  "\<forall>x \<in> set ts. train_id x \<noteq> rid \<Longrightarrow> update_train_available_seats e rid ts = Inr ts"
  by (induction ts) auto

lemma update_unique_row:
  assumes "distinct (map train_id ts)" and "t \<in> set ts" and "train_id t = rid"
    and "e t = Inr v"
  shows "update_train_available_seats e rid ts = Inr (set_available_seats rid v ts)"
  using assms
proof (induction ts)
  case Nil
  then show ?case by simp
next
  case (Cons a ts)
  show ?case
  proof (cases "a = t")
    case True
    with Cons.prems have "\<forall>x \<in> set ts. train_id x \<noteq> rid" by (auto simp: image_iff)
    then have "update_train_available_seats e rid ts = Inr ts"
      and "set_available_seats rid v ts = ts"
      by (simp_all add: update_no_match set_available_seats_def map_idI)
    with True Cons.prems show ?thesis by (simp add: set_available_seats_def)
  next
    case False
    with Cons.prems have "t \<in> set ts" and "train_id a \<noteq> rid" and "distinct (map train_id ts)"
      by auto
    with Cons.IH Cons.prems show ?thesis by (simp add: set_available_seats_def)
  qed
qed

lemma select_unique_row:
  assumes "distinct (map train_id ts)" and "t \<in> set ts" and "train_id t = rid"
  shows "select_train rid ts = Some t"
  using assms by (induction ts) (auto simp: select_train_def)

text \<open>
  C7.  For a train row (the only row with its identifier) whose seat count is a valid
  \<^verbatim>\<open>integer\<close>, and every \<open>n \<ge> 0\<close>, \<open>decrement\<close> does not raise: when the current
  \<open>available_seats\<close> is at least \<open>n\<close> it stores \<open>current - n\<close> and returns it, otherwise
  it stores \<open>0\<close> and returns \<open>0\<close>.
\<close>

theorem decrement_never_fails:
  assumes "distinct (map train_id trains)" and "t \<in> set trains" and "train_id t = row_id"
    and "int4 (available_seats t)" and "int4 n" and "0 \<le> n"
  shows "decrement row_id n trains =
           (if available_seats t \<ge> n
            then Inr (available_seats t - n, set_available_seats row_id (available_seats t - n) trains)
            else Inr (0, set_available_seats row_id 0 trains))"
proof (cases "available_seats t \<ge> n")
  case True
  with assms have ok: "int4_minus (available_seats t) n = Inr (available_seats t - n)"
    by (simp add: int4_minus_def int4_def)
  have sel: "select_train row_id trains = Some t"
    using assms by (simp add: select_unique_row)
  have "update_train_available_seats (\<lambda>t. int4_minus (available_seats t) n) row_id trains
          = Inr (set_available_seats row_id (available_seats t - n) trains)"
    using assms ok by (intro update_unique_row) simp_all
  with True ok sel show ?thesis by (simp add: decrement_def)
next
  case False
  have sel: "select_train row_id trains = Some t"
    using assms by (simp add: select_unique_row)
  have "update_train_available_seats (\<lambda>t. Inr 0) row_id trains
          = Inr (set_available_seats row_id 0 trains)"
    using assms by (intro update_unique_row) simp_all
  with False sel show ?thesis by (simp add: decrement_def)
qed

theorem decrement_never_fails_witness:
  "decrement ''T1'' 3 [\<lparr>train_id = ''T1'', total_seats = 10, available_seats = 5\<rparr>,
                       \<lparr>train_id = ''T2'', total_seats = 4, available_seats = 4\<rparr>]
     = Inr (2, [\<lparr>train_id = ''T1'', total_seats = 10, available_seats = 2\<rparr>,
                \<lparr>train_id = ''T2'', total_seats = 4, available_seats = 4\<rparr>])
   \<and> decrement ''T2'' 7 [\<lparr>train_id = ''T1'', total_seats = 10, available_seats = 5\<rparr>,
                         \<lparr>train_id = ''T2'', total_seats = 4, available_seats = 4\<rparr>]
     = Inr (0, [\<lparr>train_id = ''T1'', total_seats = 10, available_seats = 5\<rparr>,
                \<lparr>train_id = ''T2'', total_seats = 4, available_seats = 0\<rparr>])"
  using decrement_never_fails [of "[\<lparr>train_id = ''T1'', total_seats = 10, available_seats = 5\<rparr>,
          \<lparr>train_id = ''T2'', total_seats = 4, available_seats = 4\<rparr>]"
        "\<lparr>train_id = ''T1'', total_seats = 10, available_seats = 5\<rparr>" "''T1''" 3]
    decrement_never_fails [of "[\<lparr>train_id = ''T1'', total_seats = 10, available_seats = 5\<rparr>,
          \<lparr>train_id = ''T2'', total_seats = 4, available_seats = 4\<rparr>]"
        "\<lparr>train_id = ''T2'', total_seats = 4, available_seats = 4\<rparr>" "''T2''" 7]
  by (simp add: int4_def set_available_seats_def)

section \<open>Properties of the trigger functions\<close>

lemma update_train_available_seats_Inr:
  assumes "update_train_available_seats e rid ts = Inr ts'"
    and "\<And>x v. e x = Inr v \<Longrightarrow> v = available_seats x + d"
  shows "ts' = shift_available_seats rid d ts"
  using assms
proof (induction ts arbitrary: ts')
  case Nil
  then show ?case by (simp add: shift_available_seats_def)
next
  case (Cons a ts)
  then show ?case
    by (auto simp: shift_available_seats_def split: if_splits sum.splits)
qed

lemma shift_available_seats_0 [simp]: "shift_available_seats rid 0 ts = ts"
  by (simp add: shift_available_seats_def map_idI)

lemma shift_available_seats_add:
  "shift_available_seats rid d (shift_available_seats rid d' ts) = shift_available_seats rid (d' + d) ts"
  by (simp add: shift_available_seats_def)

lemma seat_taken:
  "update_train_available_seats (\<lambda>t. int4_minus (available_seats t) 1) rid ts = Inr ts'
   \<Longrightarrow> ts' = shift_available_seats rid (- 1) ts"
  by (erule update_train_available_seats_Inr) (simp add: int4_minus_def split: if_splits)

lemma seat_released:
  "update_train_available_seats (\<lambda>t. int4_plus (available_seats t) 1) rid ts = Inr ts'
   \<Longrightarrow> ts' = shift_available_seats rid 1 ts"
  by (erule update_train_available_seats_Inr) (simp add: int4_plus_def split: if_splits)

lemma update_train_seats_shift:
  assumes "update_train_seats ev trains = Inr trains'"
  shows "trains' = shift_available_seats (event_train ev) (seat_effect ev) trains"
proof (cases ev)
  case (INSERT new)
  with assms show ?thesis
    by (cases "booking_status new = ''Confirmed''")
      (simp_all add: seat_effect_def event_train_def seat_taken)
next
  case (UPDATE old new)
  consider (take) "booking_status old \<noteq> ''Confirmed'' \<and> booking_status new = ''Confirmed''"
    | (release) "booking_status old = ''Confirmed'' \<and> booking_status new = ''Cancelled''"
    | (other) "\<not> (booking_status old \<noteq> ''Confirmed'' \<and> booking_status new = ''Confirmed'')"
        "\<not> (booking_status old = ''Confirmed'' \<and> booking_status new = ''Cancelled'')"
    by blast
  then show ?thesis
  proof cases
    case take
    with assms UPDATE show ?thesis
      by (simp add: seat_effect_def event_train_def seat_taken)
  next
    case release
    with assms UPDATE show ?thesis
      by (simp add: seat_effect_def event_train_def seat_released)
  next
    case other
    with assms UPDATE show ?thesis
      by (auto simp: seat_effect_def event_train_def)
  qed
qed

lemma row_updates_shift:
  assumes "booking_writes (row_updates b bs) trains = Inr trains'"
    and "\<forall>n \<in> set bs. booking_train_id n = rid"
  shows "trains' =
     shift_available_seats rid
       (int (cancelled_after_confirmed (map booking_status (b # bs)))
          - int (steps_into_confirmed (map booking_status (b # bs)))) trains"
  using assms
proof (induction bs arbitrary: b trains)
  case Nil
  then show ?case by simp
next
  case (Cons n ns)
  from Cons.prems(1) obtain mid where
    step: "update_train_seats (UPDATE b n) trains = Inr mid" and
    rest: "booking_writes (row_updates n ns) mid = Inr trains'"
    by (auto split: sum.splits)
  from Cons.prems(2) have rid: "booking_train_id n = rid" "\<forall>m \<in> set ns. booking_train_id m = rid"
    by simp_all
  have mid: "mid = shift_available_seats rid (seat_effect (UPDATE b n)) trains"
    using update_train_seats_shift [OF step] rid by (simp add: event_train_def)
  have "trains' =
     shift_available_seats rid
       (int (cancelled_after_confirmed (map booking_status (n # ns)))
          - int (steps_into_confirmed (map booking_status (n # ns)))) mid"
    using Cons.IH [OF rest rid(2)] .
  then show ?case
    unfolding mid shift_available_seats_add
    by (simp add: seat_effect_def algebra_simps)
qed

lemma seats_within_Cons:
  "seats_within k (t # ts) \<longleftrightarrow>
     int4 (available_seats t - int k) \<and> int4 (available_seats t + int k) \<and> seats_within k ts"
  by (simp add: seats_within_def)

lemma seats_within_Nil: "seats_within k []"
  by (simp add: seats_within_def)

lemma seat_taken_ok:
  "seats_within (Suc k) ts \<Longrightarrow>
     update_train_available_seats (\<lambda>t. int4_minus (available_seats t) 1) rid ts
       = Inr (shift_available_seats rid (- 1) ts)"
  by (induction ts)
    (auto simp: seats_within_Cons shift_available_seats_def int4_minus_def int4_def)

lemma seat_released_ok:
  "seats_within (Suc k) ts \<Longrightarrow>
     update_train_available_seats (\<lambda>t. int4_plus (available_seats t) 1) rid ts
       = Inr (shift_available_seats rid 1 ts)"
  by (induction ts)
    (auto simp: seats_within_Cons shift_available_seats_def int4_plus_def int4_def)

lemma seats_within_shift:
  "seats_within (Suc k) ts \<Longrightarrow> - 1 \<le> d \<Longrightarrow> d \<le> 1
   \<Longrightarrow> seats_within k (shift_available_seats rid d ts)"
  by (induction ts)
    (auto simp: seats_within_Nil seats_within_Cons shift_available_seats_def int4_def)

lemma seat_effect_small: "- 1 \<le> seat_effect ev \<and> seat_effect ev \<le> 1"
  by (cases ev) (auto simp: seat_effect_def)

lemma update_train_seats_ok:
  assumes "seats_within (Suc k) trains"
  shows "update_train_seats ev trains
           = Inr (shift_available_seats (event_train ev) (seat_effect ev) trains)"
proof (cases ev)
  case (INSERT new)
  with assms show ?thesis
    by (simp add: seat_effect_def event_train_def seat_taken_ok)
next
  case (UPDATE old new)
  with assms show ?thesis
    by (simp add: seat_effect_def event_train_def seat_taken_ok seat_released_ok)
qed

lemma booking_writes_ok:
  "seats_within (length evs) trains \<Longrightarrow> \<exists>trains'. booking_writes evs trains = Inr trains'"
proof (induction evs arbitrary: trains)
  case Nil
  then show ?case by simp
next
  case (Cons ev evs)
  from Cons.prems have within: "seats_within (Suc (length evs)) trains" by simp
  have step: "update_train_seats ev trains
           = Inr (shift_available_seats (event_train ev) (seat_effect ev) trains)"
    using within by (rule update_train_seats_ok)
  have "seats_within (length evs) (shift_available_seats (event_train ev) (seat_effect ev) trains)"
    using within seat_effect_small [of ev] by (simp add: seats_within_shift)
  from Cons.IH [OF this] step show ?case by simp
qed

lemma length_row_updates: "length (row_updates b bs) = length bs"
  by (induction bs arbitrary: b) simp_all

lemma row_writes_shift:
  assumes "booking_writes (row_writes b bs) trains = Inr trains'"
    and "\<forall>n \<in> set bs. booking_train_id n = booking_train_id b"
  shows "trains' =
           shift_available_seats (booking_train_id b)
             (int (cancelled_after_confirmed (map booking_status (b # bs)))
                - int (confirmed_entries (map booking_status (b # bs)))) trains"
proof -
  from assms(1) obtain mid where
    ins: "update_train_seats (INSERT b) trains = Inr mid" and
    rest: "booking_writes (row_updates b bs) mid = Inr trains'"
    by (auto simp: row_writes_def split: sum.splits)
  have mid: "mid = shift_available_seats (booking_train_id b) (seat_effect (INSERT b)) trains"
    using update_train_seats_shift [OF ins] by (simp add: event_train_def)
  show ?thesis
    unfolding row_updates_shift [OF rest assms(2)] mid shift_available_seats_add
    by (simp add: seat_effect_def confirmed_entries_def algebra_simps)
qed

text \<open>
  C3.  A booking row on one train is inserted as \<open>b\<close> and then rewritten as \<open>bs\<close>, the
  seat counts being far enough from the ends of the \<^verbatim>\<open>integer\<close> range for that many
  writes.  Every write succeeds, and the train's \<open>available_seats\<close> has gone down by the
  number of entries into \<^verbatim>\<open>Confirmed\<close> (the insert as \<^verbatim>\<open>Confirmed\<close>, or a step from
  another status to \<^verbatim>\<open>Confirmed\<close>) and up by the number of steps from \<^verbatim>\<open>Confirmed\<close> to
  \<^verbatim>\<open>Cancelled\<close>, each edge once, while no other train row has changed; an update that
  keeps \<open>booking_status\<close> changes no seat count.
\<close>

theorem seat_effect_is_edge_count:
  assumes "seats_within (Suc (length bs)) trains"
    and "\<forall>n \<in> set bs. booking_train_id n = booking_train_id b"
  shows "booking_writes (row_writes b bs) trains =
           Inr (shift_available_seats (booking_train_id b)
                  (int (cancelled_after_confirmed (map booking_status (b # bs)))
                     - int (confirmed_entries (map booking_status (b # bs)))) trains)
         \<and> (\<forall>old new ts. booking_status old = booking_status new
               \<longrightarrow> update_train_seats (UPDATE old new) ts = Inr ts)"
proof
  have "length (row_writes b bs) = Suc (length bs)"
    by (simp add: row_writes_def length_row_updates)
  with assms(1) obtain trains' where run: "booking_writes (row_writes b bs) trains = Inr trains'"
    using booking_writes_ok [of "row_writes b bs" trains] by auto
  from row_writes_shift [OF run assms(2)] run
  show "booking_writes (row_writes b bs) trains =
           Inr (shift_available_seats (booking_train_id b)
                  (int (cancelled_after_confirmed (map booking_status (b # bs)))
                     - int (confirmed_entries (map booking_status (b # bs)))) trains)"
    by simp
next
  show "\<forall>old new ts. booking_status old = booking_status new
          \<longrightarrow> update_train_seats (UPDATE old new) ts = Inr ts"
    by auto
qed

theorem seat_effect_is_edge_count_witness:
  "booking_writes
     (row_writes (booking_on ''PNR1'' ''T1'' ''Confirmed'')
        [booking_on ''PNR1'' ''T1'' ''Cancelled'', booking_on ''PNR1'' ''T1'' ''Cancelled'',
         booking_on ''PNR1'' ''T1'' ''Confirmed''])
     [\<lparr>train_id = ''T1'', total_seats = 2, available_seats = 2\<rparr>,
      \<lparr>train_id = ''T2'', total_seats = 5, available_seats = 5\<rparr>]
   = Inr [\<lparr>train_id = ''T1'', total_seats = 2, available_seats = 1\<rparr>,
          \<lparr>train_id = ''T2'', total_seats = 5, available_seats = 5\<rparr>]
   \<and> confirmed_entries [''Confirmed'', ''Cancelled'', ''Cancelled'', ''Confirmed''] = 2
   \<and> cancelled_after_confirmed [''Confirmed'', ''Cancelled'', ''Cancelled'', ''Confirmed''] = 1
   \<and> [\<lparr>train_id = ''T1'', total_seats = 2, available_seats = 1\<rparr>,
       \<lparr>train_id = ''T2'', total_seats = 5, available_seats = 5\<rparr>]
     = shift_available_seats ''T1'' (1 - 2)
         [\<lparr>train_id = ''T1'', total_seats = 2, available_seats = 2\<rparr>,
          \<lparr>train_id = ''T2'', total_seats = 5, available_seats = 5\<rparr>]
   \<and> update_train_seats
         (UPDATE (booking_on ''PNR1'' ''T1'' ''Confirmed'')
                 ((booking_on ''PNR1'' ''T1'' ''Confirmed'')\<lparr>booking_seat_no := ''A11''\<rparr>))
         [\<lparr>train_id = ''T1'', total_seats = 2, available_seats = 1\<rparr>]
     = Inr [\<lparr>train_id = ''T1'', total_seats = 2, available_seats = 1\<rparr>]"
proof -
  let ?b = "booking_on ''PNR1'' ''T1'' ''Confirmed''"
  let ?bs = "[booking_on ''PNR1'' ''T1'' ''Cancelled'', booking_on ''PNR1'' ''T1'' ''Cancelled'',
              booking_on ''PNR1'' ''T1'' ''Confirmed'']"
  let ?ts = "[\<lparr>train_id = ''T1'', total_seats = 2, available_seats = 2\<rparr>,
              \<lparr>train_id = ''T2'', total_seats = 5, available_seats = 5\<rparr>]"
  let ?ts' = "[\<lparr>train_id = ''T1'', total_seats = 2, available_seats = 1\<rparr>,
               \<lparr>train_id = ''T2'', total_seats = 5, available_seats = 5\<rparr>]"
  have room: "seats_within (Suc (length ?bs)) ?ts"
    by (simp add: seats_within_def int4_def)
  have same: "\<forall>n \<in> set ?bs. booking_train_id n = booking_train_id ?b"
    by (simp add: booking_on_def)
  have counts:
    "confirmed_entries [''Confirmed'', ''Cancelled'', ''Cancelled'', ''Confirmed''] = 2"
    "cancelled_after_confirmed [''Confirmed'', ''Cancelled'', ''Cancelled'', ''Confirmed''] = 1"
    by (simp_all add: confirmed_entries_def)
  from seat_effect_is_edge_count [OF room same] counts show ?thesis
    by (simp add: booking_on_def shift_available_seats_def)
qed

text \<open>
  C1.  What the code does in the specification's scenario: on a train with
  \<open>total_seats = 2\<close> and \<open>available_seats = 2\<close> three bookings are inserted as
  \<^verbatim>\<open>Confirmed\<close>.  The trigger subtracts \<open>1\<close> each time without a lower bound, so the
  third insert leaves \<open>available_seats = - 1\<close> and the bound
  \<open>0 \<le> available_seats\<close> is broken, where the guarded \<open>decrement\<close> on the same row
  returns \<open>0\<close>.  Through the service: \<open>createBooking\<close> for two passengers on a train
  with no free seat succeeds and leaves \<open>available_seats = - 2\<close>.
\<close>

theorem third_confirmation_goes_negative:
  "booking_writes
     [INSERT (booking_on ''PNR1'' ''T1'' ''Confirmed''),
      INSERT (booking_on ''PNR2'' ''T1'' ''Confirmed'')]
     [\<lparr>train_id = ''T1'', total_seats = 2, available_seats = 2\<rparr>]
   = Inr [\<lparr>train_id = ''T1'', total_seats = 2, available_seats = 0\<rparr>]
   \<and> seats_in_bounds [\<lparr>train_id = ''T1'', total_seats = 2, available_seats = 0\<rparr>]
   \<and> update_train_seats (INSERT (booking_on ''PNR3'' ''T1'' ''Confirmed''))
         [\<lparr>train_id = ''T1'', total_seats = 2, available_seats = 0\<rparr>]
     = Inr [\<lparr>train_id = ''T1'', total_seats = 2, available_seats = - 1\<rparr>]
   \<and> \<not> seats_in_bounds [\<lparr>train_id = ''T1'', total_seats = 2, available_seats = - 1\<rparr>]
   \<and> decrement ''T1'' 1 [\<lparr>train_id = ''T1'', total_seats = 2, available_seats = 0\<rparr>]
     = Inr (0, [\<lparr>train_id = ''T1'', total_seats = 2, available_seats = 0\<rparr>])
   \<and> fst (createBooking example_booking_data
            (example_world\<lparr>train_table :=
               [\<lparr>train_id = ''T1'', total_seats = 2, available_seats = 0\<rparr>]\<rparr>))
     = Inr ''KKK''
   \<and> train_table (snd (createBooking example_booking_data
            (example_world\<lparr>train_table :=
               [\<lparr>train_id = ''T1'', total_seats = 2, available_seats = 0\<rparr>]\<rparr>)))
     = [\<lparr>train_id = ''T1'', total_seats = 2, available_seats = - 2\<rparr>]"
  by (simp add: createBooking_def createBooking_body_def insert_passenger_def resolve_fare_id_def
      select_fare_id_def insert_booking_def insert_payment_def request_def new_id_def random_def
      single_def quiet_world_def example_booking_data_def example_world_def
      booking_on_def seat_number_def number_to_string_def decimal.simps
      int4_minus_def int4_def seats_in_bounds_def decrement_def select_train_def Let_def)

section \<open>Properties of the revenue ledger\<close>

lemma add_revenue_nonneg:
  "0 \<le> x \<Longrightarrow> revenue_nonneg admins \<Longrightarrow> revenue_nonneg (add_revenue x admins)"
  by (induction admins) (auto simp: revenue_nonneg_def add_revenue_def split: option.splits)

lemma subtract_revenue_nonneg:
  "revenue_nonneg admins \<Longrightarrow> revenue_nonneg (subtract_revenue x admins)"
  by (induction admins) (auto simp: revenue_nonneg_def subtract_revenue_def split: option.splits)

lemma subtract_revenue_noop:
  "balance_below x admins \<Longrightarrow> subtract_revenue x admins = admins"
  by (induction admins) (auto simp: balance_below_def subtract_revenue_def split: option.splits)

lemma update_revenue_on_payment_nonneg:
  "payment_event_nonneg ev \<Longrightarrow> revenue_nonneg admins
   \<Longrightarrow> revenue_nonneg (update_revenue_on_payment ev admins)"
  by (cases ev)
    (auto simp: add_revenue_nonneg subtract_revenue_nonneg, simp_all add: revenue_nonneg_def)

lemma update_revenue_on_refund_nonneg:
  "revenue_nonneg admins \<Longrightarrow> revenue_nonneg (update_revenue_on_refund ev admins)"
  by (cases ev) (auto simp: subtract_revenue_nonneg)

lemma revenue_writes_nonneg:
  "revenue_nonneg admins \<Longrightarrow> \<forall>w \<in> set ws. amounts_nonneg w
   \<Longrightarrow> revenue_nonneg (revenue_writes ws admins)"
proof (induction ws arbitrary: admins)
  case Nil
  then show ?case by simp
next
  case (Cons w ws)
  have "revenue_nonneg (apply_revenue_write w admins)"
    using Cons.prems
    by (cases w) (simp_all add: update_revenue_on_payment_nonneg update_revenue_on_refund_nonneg)
  with Cons show ?case by simp
qed

text \<open>
  C4.  Starting from a ledger with no negative \<open>total_revenue\<close> (the empty \<open>admin\<close>
  table included), no sequence of payment and cancellation writes with non-negative
  amounts makes \<open>total_revenue\<close> negative.  A reversal larger than the balance changes
  nothing: a payment updated out of \<^verbatim>\<open>Successful\<close>, or a cancellation inserted as
  \<^verbatim>\<open>Processed\<close>, whose amount is above the revenue of every row returns the table as it
  was.
\<close>

theorem revenue_never_negative:
  assumes "revenue_nonneg admins" and "\<forall>w \<in> set ws. amounts_nonneg w"
  shows "revenue_nonneg (revenue_writes ws admins)
     \<and> (\<forall>old new as.
           payment_status old = ''Successful'' \<and> payment_status new \<noteq> ''Successful''
             \<and> balance_below (payment_amount old) as
           \<longrightarrow> update_revenue_on_payment (UPDATE old new) as = as)
     \<and> (\<forall>new as.
           cancellation_status new = ''Processed'' \<and> balance_below (refund_amount new) as
           \<longrightarrow> update_revenue_on_refund (INSERT new) as = as)"
proof (intro conjI allI impI)
  show "revenue_nonneg (revenue_writes ws admins)"
    using assms by (rule revenue_writes_nonneg)
next
  fix old new :: payment and as
  assume "payment_status old = ''Successful'' \<and> payment_status new \<noteq> ''Successful''
            \<and> balance_below (payment_amount old) as"
  then show "update_revenue_on_payment (UPDATE old new) as = as"
    by (simp add: subtract_revenue_noop)
next
  fix new :: cancellation and as
  assume "cancellation_status new = ''Processed'' \<and> balance_below (refund_amount new) as"
  then show "update_revenue_on_refund (INSERT new) as = as"
    by (simp add: subtract_revenue_noop)
qed

theorem revenue_never_negative_witness:
  "revenue_writes
     [Payment_write (INSERT \<lparr>payment_pnr = ''PNR1'', payment_amount = 1000,
                              payment_method = ''UPI'', payment_status = ''Successful''\<rparr>),
      Payment_write (INSERT \<lparr>payment_pnr = ''PNR2'', payment_amount = 500,
                              payment_method = ''UPI'', payment_status = ''Successful''\<rparr>),
      Payment_write (UPDATE \<lparr>payment_pnr = ''PNR1'', payment_amount = 1000,
                              payment_method = ''UPI'', payment_status = ''Successful''\<rparr>
                            \<lparr>payment_pnr = ''PNR1'', payment_amount = 1000,
                              payment_method = ''UPI'', payment_status = ''Failed''\<rparr>),
      Cancellation_write (INSERT \<lparr>cancellation_pnr = ''PNR2'', refund_amount = 900,
                                   cancellation_status = ''Processed''\<rparr>)] []
   = [\<lparr>username = ''admin'', password = ''admin123'', total_revenue = Some 500\<rparr>]
   \<and> revenue_nonneg [\<lparr>username = ''admin'', password = ''admin123'', total_revenue = Some 500\<rparr>]
   \<and> update_revenue_on_payment
         (UPDATE \<lparr>payment_pnr = ''PNR2'', payment_amount = 501,
                   payment_method = ''UPI'', payment_status = ''Successful''\<rparr>
                 \<lparr>payment_pnr = ''PNR2'', payment_amount = 501,
                   payment_method = ''UPI'', payment_status = ''Refunded''\<rparr>)
         [\<lparr>username = ''admin'', password = ''admin123'', total_revenue = Some 500\<rparr>]
     = [\<lparr>username = ''admin'', password = ''admin123'', total_revenue = Some 500\<rparr>]
   \<and> update_revenue_on_refund
         (INSERT \<lparr>cancellation_pnr = ''PNR2'', refund_amount = 900,
                   cancellation_status = ''Processed''\<rparr>)
         [\<lparr>username = ''admin'', password = ''admin123'', total_revenue = Some 500\<rparr>]
     = [\<lparr>username = ''admin'', password = ''admin123'', total_revenue = Some 500\<rparr>]"
proof -
  let ?ws = "[Payment_write (INSERT \<lparr>payment_pnr = ''PNR1'', payment_amount = 1000,
                              payment_method = ''UPI'', payment_status = ''Successful''\<rparr>),
      Payment_write (INSERT \<lparr>payment_pnr = ''PNR2'', payment_amount = 500,
                              payment_method = ''UPI'', payment_status = ''Successful''\<rparr>),
      Payment_write (UPDATE \<lparr>payment_pnr = ''PNR1'', payment_amount = 1000,
                              payment_method = ''UPI'', payment_status = ''Successful''\<rparr>
                            \<lparr>payment_pnr = ''PNR1'', payment_amount = 1000,
                              payment_method = ''UPI'', payment_status = ''Failed''\<rparr>),
      Cancellation_write (INSERT \<lparr>cancellation_pnr = ''PNR2'', refund_amount = 900,
                                   cancellation_status = ''Processed''\<rparr>)]"
  let ?as = "[\<lparr>username = ''admin'', password = ''admin123'', total_revenue = Some 500\<rparr>]"
  have start: "revenue_nonneg []"
    by (simp add: revenue_nonneg_def)
  have amounts: "\<forall>w \<in> set ?ws. amounts_nonneg w"
    by simp
  have run: "revenue_writes ?ws [] = ?as"
    by (simp add: add_revenue_def subtract_revenue_def)
  have below: "balance_below 501 ?as" "balance_below 900 ?as"
    by (simp_all add: balance_below_def)
  let ?old = "\<lparr>payment_pnr = ''PNR2'', payment_amount = 501,
                payment_method = ''UPI'', payment_status = ''Successful''\<rparr>"
  let ?new = "\<lparr>payment_pnr = ''PNR2'', payment_amount = 501,
                payment_method = ''UPI'', payment_status = ''Refunded''\<rparr>"
  let ?refund = "\<lparr>cancellation_pnr = ''PNR2'', refund_amount = 900,
                   cancellation_status = ''Processed''\<rparr>"
  note ledger = revenue_never_negative [OF start amounts]
  have inv: "revenue_nonneg ?as"
    using ledger [THEN conjunct1] by (simp only: run)
  have pay: "update_revenue_on_payment (UPDATE ?old ?new) ?as = ?as"
    using ledger [THEN conjunct2, THEN conjunct1, rule_format, of ?old ?new ?as] below(1)
    by simp
  have refund: "update_revenue_on_refund (INSERT ?refund) ?as = ?as"
    using ledger [THEN conjunct2, THEN conjunct2, rule_format, of ?refund ?as] below(2)
    by simp
  from run inv pay refund show ?thesis
    by (intro conjI)
qed

section \<open>Properties of \<^verbatim>\<open>cancelBooking\<close> and \<^verbatim>\<open>getAdminData\<close>\<close>

lemma update_booking_rows_unchanged:
  "\<forall>b \<in> set bs. booking_pnr b = p \<longrightarrow> booking_status b = ''Cancelled''
   \<Longrightarrow> update_booking_rows p ''Cancelled'' bs trains = Inr (bs, trains)"
  by (induction bs) auto

lemma update_booking_rows_Inr:
  "update_booking_rows p st bs trains = Inr (bs', trains')
   \<Longrightarrow> bs' = map (\<lambda>b. if booking_pnr b = p then b\<lparr>booking_status := st\<rparr> else b) bs"
  by (induction bs arbitrary: bs' trains) (auto split: if_splits sum.splits)

lemma update_booking_status_frame:
  assumes "update_booking_status p st w = (r, w1)"
  shows "cancellation_table w1 = cancellation_table w" and "admin_table w1 = admin_table w"
    and "toasts w1 = toasts w" and "request_no w1 = Suc (request_no w)"
    and "server_failure w1 = server_failure w"
    and "payment_table w1 = payment_table w" and "passenger_table w1 = passenger_table w"
    and "fare_table w1 = fare_table w"
  using assms
  by (auto simp: update_booking_status_def request_def split: option.splits sum.splits)

lemma update_booking_status_None:
  assumes "update_booking_status p st w = (None, w1)"
  shows "booking_table w1 =
           map (\<lambda>b. if booking_pnr b = p then b\<lparr>booking_status := st\<rparr> else b) (booking_table w)"
  using assms
  by (auto simp: update_booking_status_def request_def split: option.splits sum.splits
      dest: update_booking_rows_Inr)

lemma insert_cancellation_cases:
  "insert_cancellation p refund st w =
     (case server_failure w (request_no w) of
        Some err \<Rightarrow> (Some err, w\<lparr>request_no := Suc (request_no w)\<rparr>)
      | None \<Rightarrow>
          (None,
           w\<lparr>request_no := Suc (request_no w),
             cancellation_table := cancellation_table w @
               [\<lparr>cancellation_pnr = p, refund_amount = refund, cancellation_status = st\<rparr>],
             admin_table :=
               update_revenue_on_refund
                 (INSERT \<lparr>cancellation_pnr = p, refund_amount = refund, cancellation_status = st\<rparr>)
                 (admin_table w)\<rparr>))"
  by (simp add: insert_cancellation_def request_def Let_def split: option.splits)

lemma cancelBooking_step1_failed:
  assumes "update_booking_status p ''Cancelled'' w = (Some err, w1)"
  shows "cancelBooking p amount w =
           (Inl (Postgrest err), toast_error (''Failed to cancel booking: '' @ err_message err) w1)"
  using assms by (simp add: cancelBooking_def cancelBooking_body_def)

lemma cancelBooking_step2_failed:
  assumes "update_booking_status p ''Cancelled'' w = (None, w1)"
    and "server_failure w1 (request_no w1) = Some err"
  shows "cancelBooking p amount w =
           (Inl (Postgrest err),
            toast_error (''Failed to cancel booking: '' @ err_message err)
              (w1\<lparr>request_no := Suc (request_no w1)\<rparr>))"
  using assms by (simp add: cancelBooking_def cancelBooking_body_def insert_cancellation_cases)

lemma cancelBooking_succeeded:
  assumes "update_booking_status p ''Cancelled'' w = (None, w1)"
    and "server_failure w1 (request_no w1) = None"
  shows "cancelBooking p amount w =
           (Inr (),
            w1\<lparr>request_no := Suc (request_no w1),
               cancellation_table := cancellation_table w1 @
                 [\<lparr>cancellation_pnr = p, refund_amount = amount * (9 / 10),
                   cancellation_status = ''Processed''\<rparr>],
               admin_table := subtract_revenue (amount * (9 / 10)) (admin_table w1),
               toasts := toasts w1 @ [Toast_cancelled (amount * (9 / 10))]\<rparr>)"
  using assms
  by (simp add: cancelBooking_def cancelBooking_body_def insert_cancellation_cases Let_def)

text \<open>
  C2, as amended.  A call \<open>cancelBooking p amount\<close> that returns appends exactly one
  cancellation record, with status \<^verbatim>\<open>Processed\<close> and the refund \<open>amount * 0.9\<close> as
  computed, not rounded; a call that throws appends none.
\<close>

theorem cancelBooking_one_cancellation_record:
  "cancellation_table (snd (cancelBooking p amount w)) =
     cancellation_table w @
       (case fst (cancelBooking p amount w) of
          Inl err \<Rightarrow> []
        | Inr u \<Rightarrow> [\<lparr>cancellation_pnr = p, refund_amount = amount * (9 / 10),
                     cancellation_status = ''Processed''\<rparr>])"
proof -
  obtain r1 w1 where s1: "update_booking_status p ''Cancelled'' w = (r1, w1)"
    by (cases "update_booking_status p ''Cancelled'' w")
  note frame = update_booking_status_frame [OF s1]
  show ?thesis
  proof (cases r1)
    case (Some err)
    with s1 frame show ?thesis
      by (simp add: cancelBooking_step1_failed toast_error_def)
  next
    case None
    show ?thesis
    proof (cases "server_failure w1 (request_no w1)")
      case (Some err)
      with s1 None frame show ?thesis
        by (simp add: cancelBooking_step2_failed toast_error_def)
    next
      case ok: None
      with s1 None frame show ?thesis
        by (simp add: cancelBooking_succeeded)
    qed
  qed
qed

theorem cancelBooking_one_cancellation_record_witness:
  "fst (cancelBooking ''PNR1'' 100 booked_world) = Inr ()
   \<and> cancellation_table (snd (cancelBooking ''PNR1'' 100 booked_world)) =
       cancellation_table booked_world @
         [\<lparr>cancellation_pnr = ''PNR1'', refund_amount = 100 * (9 / 10),
           cancellation_status = ''Processed''\<rparr>]
   \<and> cancellation_table booked_world = []
   \<and> fst (cancelBooking ''PNR1'' 100 (failing_at 0 booked_world)) = Inl (Postgrest refused)
   \<and> cancellation_table (snd (cancelBooking ''PNR1'' 100 (failing_at 0 booked_world))) =
       cancellation_table (failing_at 0 booked_world) @ []"
proof -
  have ok: "fst (cancelBooking ''PNR1'' 100 booked_world) = Inr ()"
    by (simp add: cancelBooking_def cancelBooking_body_def update_booking_status_def
      insert_cancellation_def request_def toast_error_def quiet_world_def booked_world_def
      booking_on_def int4_plus_def int4_def subtract_revenue_def Let_def)
  have failed: "fst (cancelBooking ''PNR1'' 100 (failing_at 0 booked_world)) = Inl (Postgrest refused)"
    by (simp add: cancelBooking_def cancelBooking_body_def update_booking_status_def
      insert_cancellation_def request_def toast_error_def quiet_world_def booked_world_def
      booking_on_def int4_plus_def int4_def subtract_revenue_def Let_def failing_at_def refused_def)
  have none: "cancellation_table booked_world = []"
    by (simp add: quiet_world_def booked_world_def)
  from cancelBooking_one_cancellation_record [of "''PNR1''" 100 booked_world]
    cancelBooking_one_cancellation_record [of "''PNR1''" 100 "failing_at 0 booked_world"]
    ok failed none
  show ?thesis by simp
qed

text \<open>
  C2, as stated, fails.  For the paid amount \<open>1\<close> the record holds the refund \<open>9 / 10\<close>,
  while \<open>round (0.9 * 1) = 1\<close>; and when the first request is refused by the server no
  record is created at all.
\<close>

theorem refund_is_not_rounded:
  "cancellation_table (snd (cancelBooking ''PNR1'' 1 booked_world)) =
     [\<lparr>cancellation_pnr = ''PNR1'', refund_amount = 9 / 10, cancellation_status = ''Processed''\<rparr>]
   \<and> Math_round (9 / 10 * 1) = 1
   \<and> map refund_amount (cancellation_table (snd (cancelBooking ''PNR1'' 1 booked_world)))
       \<noteq> [Math_round (9 / 10 * 1)]
   \<and> cancellation_table (snd (cancelBooking ''PNR1'' 1 (failing_at 0 booked_world))) = []"
proof -
  have "\<lfloor>(9::rat) / 10 * 1 + 1 / 2\<rfloor> = 1"
    by (rule floor_unique) simp_all
  then have rounded: "Math_round (9 / 10 * 1) = 1"
    by (simp add: Math_round_def)
  have "cancellation_table (snd (cancelBooking ''PNR1'' 1 booked_world)) =
     [\<lparr>cancellation_pnr = ''PNR1'', refund_amount = 9 / 10, cancellation_status = ''Processed''\<rparr>]"
    and "cancellation_table (snd (cancelBooking ''PNR1'' 1 (failing_at 0 booked_world))) = []"
    by (simp_all add: cancelBooking_def cancelBooking_body_def update_booking_status_def
      insert_cancellation_def request_def toast_error_def quiet_world_def booked_world_def
      booking_on_def int4_plus_def int4_def subtract_revenue_def Let_def failing_at_def refused_def)
  with rounded show ?thesis by simp
qed

text \<open>
  C5.  When the status update of step 1 succeeds and the insert of step 2 fails with
  \<open>err\<close>, \<open>cancelBooking\<close> throws that error object, whose message is the database's, and
  shows it in an error toast.  The rows with the PNR stay \<^verbatim>\<open>Cancelled\<close> and the seat
  counts stay as step 1 left them, the cancellation and admin tables are as before the
  call, and exactly two requests were sent: neither a retry nor an undo.
\<close>

theorem cancelBooking_second_step_fails:
  assumes "update_booking_status p ''Cancelled'' w = (None, w1)"
    and "fst (insert_cancellation p (amount * (9 / 10)) ''Processed'' w1) = Some err"
  shows "fst (cancelBooking p amount w) = Inl (Postgrest err)
     \<and> js_message (Postgrest err) = err_message err
     \<and> booking_table (snd (cancelBooking p amount w)) =
         map (\<lambda>b. if booking_pnr b = p then b\<lparr>booking_status := ''Cancelled''\<rparr> else b)
           (booking_table w)
     \<and> train_table (snd (cancelBooking p amount w)) = train_table w1
     \<and> cancellation_table (snd (cancelBooking p amount w)) = cancellation_table w
     \<and> admin_table (snd (cancelBooking p amount w)) = admin_table w
     \<and> request_no (snd (cancelBooking p amount w)) = request_no w + 2
     \<and> toasts (snd (cancelBooking p amount w)) =
         toasts w @ [Toast_error (''Failed to cancel booking: '' @ err_message err)]"
proof -
  from assms(2) have "server_failure w1 (request_no w1) = Some err"
    by (simp add: insert_cancellation_cases split: option.splits)
  with assms(1) show ?thesis
    using update_booking_status_frame [OF assms(1)] update_booking_status_None [OF assms(1)]
    by (simp add: cancelBooking_step2_failed toast_error_def)
qed

lemma cancelBooking_without_seat_effect:
  assumes "\<forall>b \<in> set (booking_table w). booking_pnr b = p \<longrightarrow> booking_status b = ''Cancelled''"
    and "server_failure w (request_no w) = None"
    and "server_failure w (Suc (request_no w)) = None"
  shows "cancelBooking p amount w =
     (Inr (),
      w\<lparr>request_no := Suc (Suc (request_no w)),
        cancellation_table := cancellation_table w @
          [\<lparr>cancellation_pnr = p, refund_amount = amount * (9 / 10),
            cancellation_status = ''Processed''\<rparr>],
        admin_table := subtract_revenue (amount * (9 / 10)) (admin_table w),
        toasts := toasts w @ [Toast_cancelled (amount * (9 / 10))]\<rparr>)"
proof -
  have "update_booking_status p ''Cancelled'' w = (None, w\<lparr>request_no := Suc (request_no w)\<rparr>)"
    using assms(1,2)
    by (simp add: update_booking_status_def request_def update_booking_rows_unchanged)
  then show ?thesis
    using assms(3) by (simp add: cancelBooking_succeeded)
qed

theorem cancelBooking_second_step_fails_witness:
  "update_booking_status ''PNR1'' ''Cancelled'' (failing_at 1 booked_world) =
     (None, (failing_at 1 booked_world)
              \<lparr>request_no := 1, booking_table := [booking_on ''PNR1'' ''T1'' ''Cancelled''],
               train_table := [\<lparr>train_id = ''T1'', total_seats = 2, available_seats = 2\<rparr>]\<rparr>)
   \<and> fst (cancelBooking ''PNR1'' 100 (failing_at 1 booked_world)) = Inl (Postgrest refused)
   \<and> booking_table (snd (cancelBooking ''PNR1'' 100 (failing_at 1 booked_world))) =
       [booking_on ''PNR1'' ''T1'' ''Cancelled'']
   \<and> train_table (snd (cancelBooking ''PNR1'' 100 (failing_at 1 booked_world))) =
       [\<lparr>train_id = ''T1'', total_seats = 2, available_seats = 2\<rparr>]
   \<and> cancellation_table (snd (cancelBooking ''PNR1'' 100 (failing_at 1 booked_world))) = []
   \<and> admin_table (snd (cancelBooking ''PNR1'' 100 (failing_at 1 booked_world))) =
       [\<lparr>username = ''admin'', password = ''admin123'', total_revenue = Some 1000\<rparr>]
   \<and> request_no (snd (cancelBooking ''PNR1'' 100 (failing_at 1 booked_world))) = 2
   \<and> toasts (snd (cancelBooking ''PNR1'' 100 (failing_at 1 booked_world))) =
       [Toast_error ''Failed to cancel booking: permission denied'']"
proof -
  let ?w = "failing_at 1 booked_world"
  let ?w1 = "?w\<lparr>request_no := 1, booking_table := [booking_on ''PNR1'' ''T1'' ''Cancelled''],
               train_table := [\<lparr>train_id = ''T1'', total_seats = 2, available_seats = 2\<rparr>]\<rparr>"
  have step1: "update_booking_status ''PNR1'' ''Cancelled'' ?w = (None, ?w1)"
    by (simp add: cancelBooking_def cancelBooking_body_def update_booking_status_def
      insert_cancellation_def request_def toast_error_def quiet_world_def booked_world_def
      booking_on_def int4_plus_def int4_def subtract_revenue_def Let_def failing_at_def refused_def)
  have step2: "fst (insert_cancellation ''PNR1'' (100 * (9 / 10)) ''Processed'' ?w1) = Some refused"
    by (simp add: cancelBooking_def cancelBooking_body_def update_booking_status_def
      insert_cancellation_def request_def toast_error_def quiet_world_def booked_world_def
      booking_on_def int4_plus_def int4_def subtract_revenue_def Let_def failing_at_def refused_def)
  from cancelBooking_second_step_fails [OF step1 step2] step1 show ?thesis
    by (simp add: cancelBooking_def cancelBooking_body_def update_booking_status_def
      insert_cancellation_def request_def toast_error_def quiet_world_def booked_world_def
      booking_on_def int4_plus_def int4_def subtract_revenue_def Let_def failing_at_def refused_def)
qed

text \<open>
  C8.  When no booking row has the PNR and the server refuses neither request,
  \<open>cancelBooking\<close> returns normally: the booking and train tables are untouched, a
  cancellation record with status \<^verbatim>\<open>Processed\<close> and refund \<open>amount * 0.9\<close> is appended,
  and the refund trigger has run on the admin table.
\<close>

theorem cancelBooking_unknown_pnr:
  assumes "\<forall>b \<in> set (booking_table w). booking_pnr b \<noteq> p"
    and "server_failure w (request_no w) = None"
    and "server_failure w (Suc (request_no w)) = None"
  shows "cancelBooking p amount w =
     (Inr (),
      w\<lparr>request_no := Suc (Suc (request_no w)),
        cancellation_table := cancellation_table w @
          [\<lparr>cancellation_pnr = p, refund_amount = amount * (9 / 10),
            cancellation_status = ''Processed''\<rparr>],
        admin_table :=
          update_revenue_on_refund
            (INSERT \<lparr>cancellation_pnr = p, refund_amount = amount * (9 / 10),
                      cancellation_status = ''Processed''\<rparr>) (admin_table w),
        toasts := toasts w @ [Toast_cancelled (amount * (9 / 10))]\<rparr>)"
proof -
  from assms(1) have
    "\<forall>b \<in> set (booking_table w). booking_pnr b = p \<longrightarrow> booking_status b = ''Cancelled''"
    by simp
  from cancelBooking_without_seat_effect [OF this assms(2,3)] show ?thesis
    by simp
qed

theorem cancelBooking_unknown_pnr_witness:
  "cancelBooking ''PNR9'' 100 booked_world =
     (Inr (),
      booked_world
        \<lparr>request_no := 2,
         cancellation_table :=
           [\<lparr>cancellation_pnr = ''PNR9'', refund_amount = 90, cancellation_status = ''Processed''\<rparr>],
         admin_table := [\<lparr>username = ''admin'', password = ''admin123'', total_revenue = Some 910\<rparr>],
         toasts := [Toast_cancelled 90]\<rparr>)
   \<and> booking_table booked_world = [booking_on ''PNR1'' ''T1'' ''Confirmed'']
   \<and> train_table booked_world = [\<lparr>train_id = ''T1'', total_seats = 2, available_seats = 1\<rparr>]"
proof -
  have unknown: "\<forall>b \<in> set (booking_table booked_world). booking_pnr b \<noteq> ''PNR9''"
    by (simp add: cancelBooking_def cancelBooking_body_def update_booking_status_def
      insert_cancellation_def request_def toast_error_def quiet_world_def booked_world_def
      booking_on_def int4_plus_def int4_def subtract_revenue_def Let_def)
  have quiet: "server_failure booked_world (request_no booked_world) = None"
    "server_failure booked_world (Suc (request_no booked_world)) = None"
    by (simp_all add: cancelBooking_def cancelBooking_body_def update_booking_status_def
      insert_cancellation_def request_def toast_error_def quiet_world_def booked_world_def
      booking_on_def int4_plus_def int4_def subtract_revenue_def Let_def)
  from cancelBooking_unknown_pnr [OF unknown quiet, of 100] show ?thesis
    by (simp add: cancelBooking_def cancelBooking_body_def update_booking_status_def
      insert_cancellation_def request_def toast_error_def quiet_world_def booked_world_def
      booking_on_def int4_plus_def int4_def subtract_revenue_def Let_def)
qed

text \<open>
  C9.  When the booking with the PNR is already \<^verbatim>\<open>Cancelled\<close> and the server refuses
  neither request, another \<open>cancelBooking\<close> leaves the train and booking tables as they
  are, and still appends one more \<^verbatim>\<open>Processed\<close> cancellation record and runs the refund
  trigger once more, which takes the refund off every revenue that covers it.
\<close>

theorem cancelBooking_again:
  assumes "b \<in> set (booking_table w)" and "booking_pnr b = p"
    and "\<forall>x \<in> set (booking_table w). booking_pnr x = p \<longrightarrow> booking_status x = ''Cancelled''"
    and "server_failure w (request_no w) = None"
    and "server_failure w (Suc (request_no w)) = None"
  shows "cancelBooking p amount w =
     (Inr (),
      w\<lparr>request_no := Suc (Suc (request_no w)),
        cancellation_table := cancellation_table w @
          [\<lparr>cancellation_pnr = p, refund_amount = amount * (9 / 10),
            cancellation_status = ''Processed''\<rparr>],
        admin_table := subtract_revenue (amount * (9 / 10)) (admin_table w),
        toasts := toasts w @ [Toast_cancelled (amount * (9 / 10))]\<rparr>)
     \<and> train_table (snd (cancelBooking p amount w)) = train_table w
     \<and> booking_table (snd (cancelBooking p amount w)) = booking_table w
     \<and> length (cancellation_table (snd (cancelBooking p amount w)))
         = Suc (length (cancellation_table w))"
  using cancelBooking_without_seat_effect [OF assms(3,4,5), of amount] by simp

theorem cancelBooking_again_witness:
  "train_table (snd (cancelBooking ''PNR1'' 100 booked_world)) =
     [\<lparr>train_id = ''T1'', total_seats = 2, available_seats = 2\<rparr>]
   \<and> admin_table (snd (cancelBooking ''PNR1'' 100 booked_world)) =
       [\<lparr>username = ''admin'', password = ''admin123'', total_revenue = Some 910\<rparr>]
   \<and> cancellation_table (snd (cancelBooking ''PNR1'' 100 booked_world)) =
       [\<lparr>cancellation_pnr = ''PNR1'', refund_amount = 90, cancellation_status = ''Processed''\<rparr>]
   \<and> fst (cancelBooking ''PNR1'' 100 (snd (cancelBooking ''PNR1'' 100 booked_world))) = Inr ()
   \<and> train_table (snd (cancelBooking ''PNR1'' 100 (snd (cancelBooking ''PNR1'' 100 booked_world)))) =
       [\<lparr>train_id = ''T1'', total_seats = 2, available_seats = 2\<rparr>]
   \<and> admin_table (snd (cancelBooking ''PNR1'' 100 (snd (cancelBooking ''PNR1'' 100 booked_world)))) =
       [\<lparr>username = ''admin'', password = ''admin123'', total_revenue = Some 820\<rparr>]
   \<and> cancellation_table
         (snd (cancelBooking ''PNR1'' 100 (snd (cancelBooking ''PNR1'' 100 booked_world)))) =
       [\<lparr>cancellation_pnr = ''PNR1'', refund_amount = 90, cancellation_status = ''Processed''\<rparr>,
        \<lparr>cancellation_pnr = ''PNR1'', refund_amount = 90, cancellation_status = ''Processed''\<rparr>]"
proof -
  let ?w1 = "snd (cancelBooking ''PNR1'' 100 booked_world)"
  have first: "?w1 =
      booked_world
        \<lparr>request_no := 2, booking_table := [booking_on ''PNR1'' ''T1'' ''Cancelled''],
         train_table := [\<lparr>train_id = ''T1'', total_seats = 2, available_seats = 2\<rparr>],
         cancellation_table :=
           [\<lparr>cancellation_pnr = ''PNR1'', refund_amount = 90, cancellation_status = ''Processed''\<rparr>],
         admin_table := [\<lparr>username = ''admin'', password = ''admin123'', total_revenue = Some 910\<rparr>],
         toasts := [Toast_cancelled 90]\<rparr>"
    by (simp add: cancelBooking_def cancelBooking_body_def update_booking_status_def
      insert_cancellation_def request_def toast_error_def quiet_world_def booked_world_def
      booking_on_def int4_plus_def int4_def subtract_revenue_def Let_def)
  have row: "booking_on ''PNR1'' ''T1'' ''Cancelled'' \<in> set (booking_table ?w1)"
    "booking_pnr (booking_on ''PNR1'' ''T1'' ''Cancelled'') = ''PNR1''"
    unfolding first by (simp_all add: cancelBooking_def cancelBooking_body_def update_booking_status_def
      insert_cancellation_def request_def toast_error_def quiet_world_def booked_world_def
      booking_on_def int4_plus_def int4_def subtract_revenue_def Let_def)
  have cancelled:
    "\<forall>x \<in> set (booking_table ?w1). booking_pnr x = ''PNR1'' \<longrightarrow> booking_status x = ''Cancelled''"
    unfolding first by (simp add: cancelBooking_def cancelBooking_body_def update_booking_status_def
      insert_cancellation_def request_def toast_error_def quiet_world_def booked_world_def
      booking_on_def int4_plus_def int4_def subtract_revenue_def Let_def)
  have quiet: "server_failure ?w1 (request_no ?w1) = None"
    "server_failure ?w1 (Suc (request_no ?w1)) = None"
    unfolding first by (simp_all add: cancelBooking_def cancelBooking_body_def update_booking_status_def
      insert_cancellation_def request_def toast_error_def quiet_world_def booked_world_def
      booking_on_def int4_plus_def int4_def subtract_revenue_def Let_def)
  from cancelBooking_again [OF row cancelled quiet, of 100] show ?thesis
    unfolding first by (simp add: cancelBooking_def cancelBooking_body_def update_booking_status_def
      insert_cancellation_def request_def toast_error_def quiet_world_def booked_world_def
      booking_on_def int4_plus_def int4_def subtract_revenue_def Let_def)
qed

text \<open>
  C10.  With an empty \<open>admin\<close> table \<open>getAdminData\<close> throws an \<^verbatim>\<open>Error\<close> (the message
  of the refused request, or of \<^verbatim>\<open>.single()\<close> finding no row) and returns no revenue;
  with one admin row whose \<open>total_revenue\<close> is \<^verbatim>\<open>NULL\<close>, and the request not refused, it
  returns \<open>0\<close>.
\<close>

theorem getAdminData_without_admin_row:
  "(admin_table w = [] \<longrightarrow>
      fst (getAdminData w) =
        Inl (Error (''Failed to fetch admin data: '' @
          err_message (case server_failure w (request_no w) of
                         Some err \<Rightarrow> err | None \<Rightarrow> not_a_single_row))))
   \<and> (server_failure w (request_no w) = None \<and> admin_table w = [a] \<and> total_revenue a = None
        \<longrightarrow> fst (getAdminData w) = Inr \<lparr>totalRevenue = 0\<rparr>)"
  by (auto simp: getAdminData_def select_total_revenue_def request_def single_def or_zero_def
      split: option.splits)

theorem getAdminData_without_admin_row_witness:
  "admin_table example_world = []
   \<and> fst (getAdminData example_world) =
       Inl (Error ''Failed to fetch admin data: JSON object requested, multiple (or no) rows returned'')
   \<and> fst (getAdminData (snd (createBooking example_booking_data example_world))) =
       Inr \<lparr>totalRevenue = 1600\<rparr>
   \<and> fst (getAdminData
            (quiet_world [] [] []
               [\<lparr>username = ''admin'', password = ''admin123'', total_revenue = None\<rparr>])) =
       Inr \<lparr>totalRevenue = 0\<rparr>"
proof -
  let ?w = "quiet_world [] [] [] [\<lparr>username = ''admin'', password = ''admin123'', total_revenue = None\<rparr>]"
  let ?a = "\<lparr>username = ''admin'', password = ''admin123'', total_revenue = None\<rparr>"
  have empty: "admin_table example_world = []"
    by (simp add: quiet_world_def example_world_def)
  have quiet: "server_failure example_world (request_no example_world) = None"
    by (simp add: quiet_world_def example_world_def)
  have null: "server_failure ?w (request_no ?w) = None \<and> admin_table ?w = [?a] \<and> total_revenue ?a = None"
    by (simp add: quiet_world_def)
  have paid: "fst (getAdminData (snd (createBooking example_booking_data example_world))) =
       Inr \<lparr>totalRevenue = 1600\<rparr>"
    by (simp add: getAdminData_def select_total_revenue_def or_zero_def not_a_single_row_def
      createBooking_def createBooking_body_def insert_passenger_def
      resolve_fare_id_def select_fare_id_def insert_booking_def insert_payment_def request_def
      new_id_def random_def single_def quiet_world_def example_booking_data_def
      example_world_def seat_number_def number_to_string_def decimal.simps int4_minus_def
      int4_def Let_def)
  from getAdminData_without_admin_row [of example_world ?a]
    getAdminData_without_admin_row [of ?w ?a] empty quiet null paid
  show ?thesis by (simp add: getAdminData_def select_total_revenue_def or_zero_def request_def single_def
      not_a_single_row_def quiet_world_def example_world_def)
qed

section \<open>Properties of \<^verbatim>\<open>createBooking\<close>\<close>

lemma insert_passenger_Inr:
  assumes "insert_passenger p w = (Inr pid, w')"
  shows "passenger_table w' = passenger_table w @
           [\<lparr>passenger_id = pid, passenger_name = name p, passenger_age = age p,
             passenger_gender = gender p, passenger_contact = contact p\<rparr>]
         \<and> booking_table w' = booking_table w \<and> payment_table w' = payment_table w
         \<and> fare_table w' = fare_table w"
  using assms
  by (auto simp: insert_passenger_def request_def new_id_def split: option.splits)

lemma insert_passengers_Inr:
  assumes "insert_passengers ps ids w = (Inr ids', w')"
  shows "\<exists>new. passenger_table w' = passenger_table w @ new \<and> length new = length ps
           \<and> ids' = ids @ map passenger_id new \<and> map passenger_name new = map name ps
           \<and> booking_table w' = booking_table w \<and> payment_table w' = payment_table w
           \<and> fare_table w' = fare_table w"
  using assms
proof (induction ps arbitrary: ids w)
  case Nil
  then show ?case by simp
next
  case (Cons p ps)
  then obtain pid w1 where
    one: "insert_passenger p w = (Inr pid, w1)" and
    rest: "insert_passengers ps (ids @ [pid]) w1 = (Inr ids', w')"
    by (auto split: prod.splits sum.splits)
  from Cons.IH [OF rest] obtain new where
    new: "passenger_table w' = passenger_table w1 @ new" "length new = length ps"
      "ids' = (ids @ [pid]) @ map passenger_id new" "map passenger_name new = map name ps"
      "booking_table w' = booking_table w1" "payment_table w' = payment_table w1"
      "fare_table w' = fare_table w1"
    by blast
  let ?row = "\<lparr>passenger_id = pid, passenger_name = name p, passenger_age = age p,
                passenger_gender = gender p, passenger_contact = contact p\<rparr>"
  from new insert_passenger_Inr [OF one]
  have "passenger_table w' = passenger_table w @ (?row # new)
          \<and> length (?row # new) = length (p # ps)
          \<and> ids' = ids @ map passenger_id (?row # new)
          \<and> map passenger_name (?row # new) = map name (p # ps)
          \<and> booking_table w' = booking_table w \<and> payment_table w' = payment_table w
          \<and> fare_table w' = fare_table w"
    by simp
  then show ?case by blast
qed

lemma single_Inr: "single rows = Inr r \<Longrightarrow> rows = [r]"
  by (auto simp: single_def split: list.splits)

lemma select_fare_id_Inr:
  assumes "select_fare_id t c w = (Inr fid, w')"
  shows "fid \<in> fare_id ` {f \<in> set (fare_table w). fare_train_id f = t}
         \<and> passenger_table w' = passenger_table w \<and> booking_table w' = booking_table w
         \<and> payment_table w' = payment_table w"
proof -
  from assms have
    one: "single (map fare_id (filter (\<lambda>f. fare_train_id f = t \<and> fare_class f = c) (fare_table w)))
            = Inr fid" and
    w': "w' = w\<lparr>request_no := Suc (request_no w)\<rparr>"
    by (auto simp: select_fare_id_def request_def split: option.splits)
  from single_Inr [OF one]
  have "fid \<in> set (map fare_id (filter (\<lambda>f. fare_train_id f = t \<and> fare_class f = c) (fare_table w)))"
    by simp
  with w' show ?thesis by auto
qed

lemma select_any_fare_id_Inr:
  assumes "select_any_fare_id t w = (Inr fid, w')"
  shows "fid \<in> fare_id ` {f \<in> set (fare_table w). fare_train_id f = t}
         \<and> passenger_table w' = passenger_table w \<and> booking_table w' = booking_table w
         \<and> payment_table w' = payment_table w"
proof -
  from assms have
    one: "single (take 1 (map fare_id (filter (\<lambda>f. fare_train_id f = t) (fare_table w))))
            = Inr fid" and
    w': "w' = w\<lparr>request_no := Suc (request_no w)\<rparr>"
    by (auto simp: select_any_fare_id_def request_def split: option.splits)
  from single_Inr [OF one]
  have "fid \<in> set (take 1 (map fare_id (filter (\<lambda>f. fare_train_id f = t) (fare_table w))))"
    by simp
  then have "fid \<in> set (map fare_id (filter (\<lambda>f. fare_train_id f = t) (fare_table w)))"
    by (rule in_set_takeD)
  with w' show ?thesis by auto
qed

lemma select_fare_id_Inl:
  assumes "select_fare_id t c w = (Inl err, w')"
  shows "fare_table w' = fare_table w
         \<and> passenger_table w' = passenger_table w \<and> booking_table w' = booking_table w
         \<and> payment_table w' = payment_table w"
  using assms by (auto simp: select_fare_id_def request_def split: option.splits)

lemma resolve_fare_id_Inr:
  assumes "resolve_fare_id bd w = (Inr fid, w')"
  shows "fid \<in> fare_id ` {f \<in> set (fare_table w). fare_train_id f = trainId bd}
         \<and> passenger_table w' = passenger_table w \<and> booking_table w' = booking_table w
         \<and> payment_table w' = payment_table w"
proof -
  obtain r w1 where s: "select_fare_id (trainId bd) (fareClass bd) w = (r, w1)"
    by (cases "select_fare_id (trainId bd) (fareClass bd) w")
  show ?thesis
  proof (cases r)
    case (Inl err)
    with s assms have "select_any_fare_id (trainId bd) w1 = (Inr fid, w')"
      by (simp add: resolve_fare_id_def)
    from select_any_fare_id_Inr [OF this] select_fare_id_Inl [OF s [unfolded Inl]]
    show ?thesis by simp
  next
    case (Inr x)
    with s assms have "select_fare_id (trainId bd) (fareClass bd) w = (Inr fid, w')"
      by (simp add: resolve_fare_id_def)
    then show ?thesis by (rule select_fare_id_Inr)
  qed
qed

lemma insert_booking_Inr:
  assumes "insert_booking pid tid fid cls seat st w = (Inr p, w')"
  shows "booking_table w' = booking_table w @
           [\<lparr>booking_pnr = p, booking_passenger_id = pid, booking_train_id = tid,
             booking_fare_id = fid, booking_class = cls, booking_seat_no = seat,
             booking_status = st\<rparr>]
         \<and> passenger_table w' = passenger_table w \<and> payment_table w' = payment_table w"
  using assms
  by (auto simp: insert_booking_def request_def new_id_def Let_def
      split: option.splits sum.splits)

lemma insert_bookings_Inr:
  assumes "insert_bookings i pids bd fid acc first w = (Inr (acc', first'), w')"
  shows "\<exists>new. booking_table w' = booking_table w @ new
           \<and> map booking_passenger_id new = pids
           \<and> (\<forall>b \<in> set new. booking_fare_id b = fid \<and> booking_status b = ''Confirmed''
                 \<and> booking_train_id b = trainId bd \<and> booking_class b = fareClass bd)
           \<and> acc' = acc @ map booking_pnr new
           \<and> first' = (case new of [] \<Rightarrow> first | b # _ \<Rightarrow> if i = 0 then booking_pnr b else first)
           \<and> passenger_table w' = passenger_table w \<and> payment_table w' = payment_table w"
  using assms
proof (induction pids arbitrary: i acc first w)
  case Nil
  then show ?case by simp
next
  case (Cons pid pids)
  let ?w1 = "w\<lparr>random_no := Suc (random_no w)\<rparr>"
  let ?seat = "seat_number (fareClass bd) (math_random w (random_no w))"
  from Cons.prems obtain p w2 where
    one: "insert_booking pid (trainId bd) fid (fareClass bd) ?seat ''Confirmed'' ?w1 = (Inr p, w2)" and
    rest: "insert_bookings (Suc i) pids bd fid (acc @ [p]) (if i = 0 then p else first) w2 = (Inr (acc', first'), w')"
    by (auto simp: random_def split: prod.splits sum.splits)
  let ?row = "\<lparr>booking_pnr = p, booking_passenger_id = pid, booking_train_id = trainId bd,
                booking_fare_id = fid, booking_class = fareClass bd, booking_seat_no = ?seat,
                booking_status = ''Confirmed''\<rparr>"
  from Cons.IH [OF rest] obtain new where
    new: "booking_table w' = booking_table w2 @ new"
      "map booking_passenger_id new = pids"
      "\<forall>b \<in> set new. booking_fare_id b = fid \<and> booking_status b = ''Confirmed''
                 \<and> booking_train_id b = trainId bd \<and> booking_class b = fareClass bd"
      "acc' = (acc @ [p]) @ map booking_pnr new"
      "first' = (case new of [] \<Rightarrow> (if i = 0 then p else first)
                 | b # _ \<Rightarrow> if Suc i = 0 then booking_pnr b else (if i = 0 then p else first))"
      "passenger_table w' = passenger_table w2" "payment_table w' = payment_table w2"
    by blast
  from new(5) have first': "first' = (if i = 0 then p else first)"
    by (cases new) simp_all
  from new first' insert_booking_Inr [OF one]
  have "booking_table w' = booking_table w @ (?row # new)
          \<and> map booking_passenger_id (?row # new) = pid # pids
          \<and> (\<forall>b \<in> set (?row # new). booking_fare_id b = fid \<and> booking_status b = ''Confirmed''
                 \<and> booking_train_id b = trainId bd \<and> booking_class b = fareClass bd)
          \<and> acc' = acc @ map booking_pnr (?row # new)
          \<and> first' = (case ?row # new of [] \<Rightarrow> first | b # _ \<Rightarrow> if i = 0 then booking_pnr b else first)
          \<and> passenger_table w' = passenger_table w \<and> payment_table w' = payment_table w"
    by simp
  then show ?case by (rule exI [of _ "?row # new"])
qed

lemma insert_payment_None:
  assumes "insert_payment p amount pm st w = (None, w')"
  shows "payment_table w' = payment_table w @
           [\<lparr>payment_pnr = p, payment_amount = amount, payment_method = pm, payment_status = st\<rparr>]
         \<and> passenger_table w' = passenger_table w \<and> booking_table w' = booking_table w"
  using assms
  by (auto simp: insert_payment_def request_def Let_def split: option.splits)

text \<open>
  C6.  A \<open>createBooking\<close> call with at least one passenger that returns \<open>p\<close> has appended
  one passenger row per passenger record and as many booking rows, each for one of the new
  passengers and all with the same fare identifier, which is a fare of the train; it has
  appended one payment row, for the PNR of the first new booking, the full total amount
  and status \<^verbatim>\<open>Successful\<close>; and \<open>p\<close> is the PNR of the first new booking.
\<close>

theorem createBooking_rows:
  assumes "createBooking bd w = (Inr p, w')" and "passengerData bd \<noteq> []"
  shows "\<exists>ps b bs fid.
           passenger_table w' = passenger_table w @ ps
         \<and> length ps = length (passengerData bd)
         \<and> map passenger_name ps = map name (passengerData bd)
         \<and> booking_table w' = booking_table w @ b # bs
         \<and> length (b # bs) = length (passengerData bd)
         \<and> map booking_passenger_id (b # bs) = map passenger_id ps
         \<and> fid \<in> fare_id ` {f \<in> set (fare_table w). fare_train_id f = trainId bd}
         \<and> (\<forall>x \<in> set (b # bs). booking_fare_id x = fid \<and> booking_status x = ''Confirmed'')
         \<and> payment_table w' = payment_table w @
             [\<lparr>payment_pnr = booking_pnr b, payment_amount = totalAmount bd,
               payment_method = paymentMethod bd, payment_status = ''Successful''\<rparr>]
         \<and> p = booking_pnr b"
proof -
  from assms(1) have body: "createBooking_body bd w = (Inr p, w')"
    by (auto simp: createBooking_def split: prod.splits sum.splits)
  then obtain ids w1 fid w2 acc first w3 where
    s1: "insert_passengers (passengerData bd) [] w = (Inr ids, w1)" and
    s2: "resolve_fare_id bd w1 = (Inr fid, w2)" and
    s3: "insert_bookings 0 ids bd fid [] [] w2 = (Inr (acc, first), w3)" and
    s4: "insert_payment first (totalAmount bd) (paymentMethod bd) ''Successful'' w3 = (None, w')" and
    p: "p = first"
    by (auto simp: createBooking_body_def split: prod.splits sum.splits option.splits)
  from insert_passengers_Inr [OF s1] obtain ps where
    ps: "passenger_table w1 = passenger_table w @ ps" "length ps = length (passengerData bd)"
      "ids = map passenger_id ps" "map passenger_name ps = map name (passengerData bd)"
      "booking_table w1 = booking_table w" "payment_table w1 = payment_table w"
      "fare_table w1 = fare_table w"
    by auto
  note fare = resolve_fare_id_Inr [OF s2]
  from insert_bookings_Inr [OF s3] obtain new where
    new: "booking_table w3 = booking_table w2 @ new" "map booking_passenger_id new = ids"
      "\<forall>b \<in> set new. booking_fare_id b = fid \<and> booking_status b = ''Confirmed''
                 \<and> booking_train_id b = trainId bd \<and> booking_class b = fareClass bd"
      "first = (case new of [] \<Rightarrow> [] | b # _ \<Rightarrow> if (0::nat) = 0 then booking_pnr b else [])"
      "passenger_table w3 = passenger_table w2" "payment_table w3 = payment_table w2"
    by blast
  from new(2) ps(2,3) assms(2) have "new \<noteq> []" by auto
  then obtain b bs where bbs: "new = b # bs" by (cases new) auto
  note pay = insert_payment_None [OF s4]
  have "passenger_table w' = passenger_table w @ ps
         \<and> length ps = length (passengerData bd)
         \<and> map passenger_name ps = map name (passengerData bd)
         \<and> booking_table w' = booking_table w @ b # bs
         \<and> length (b # bs) = length (passengerData bd)
         \<and> map booking_passenger_id (b # bs) = map passenger_id ps
         \<and> fid \<in> fare_id ` {f \<in> set (fare_table w). fare_train_id f = trainId bd}
         \<and> (\<forall>x \<in> set (b # bs). booking_fare_id x = fid \<and> booking_status x = ''Confirmed'')
         \<and> payment_table w' = payment_table w @
             [\<lparr>payment_pnr = booking_pnr b, payment_amount = totalAmount bd,
               payment_method = paymentMethod bd, payment_status = ''Successful''\<rparr>]
         \<and> p = booking_pnr b"
  proof (intro conjI)
    show "length (b # bs) = length (passengerData bd)"
      using new(2) ps(2,3) bbs by (metis length_map)
    show "\<forall>x \<in> set (b # bs). booking_fare_id x = fid \<and> booking_status x = ''Confirmed''"
      using new(3) bbs by simp
  qed (use ps fare new bbs pay p in simp_all)
  then show ?thesis by blast
qed

theorem createBooking_rows_witness:
  "fst (createBooking example_booking_data example_world) = Inr ''KKK''
   \<and> passenger_table (snd (createBooking example_booking_data example_world)) =
       [\<lparr>passenger_id = ''K'', passenger_name = ''Asha'', passenger_age = 34,
         passenger_gender = ''F'', passenger_contact = ''asha@example.org''\<rparr>,
        \<lparr>passenger_id = ''KK'', passenger_name = ''Ravi'', passenger_age = 36,
         passenger_gender = ''M'', passenger_contact = ''ravi@example.org''\<rparr>]
   \<and> booking_table (snd (createBooking example_booking_data example_world)) =
       [\<lparr>booking_pnr = ''KKK'', booking_passenger_id = ''K'', booking_train_id = ''T1'',
         booking_fare_id = ''F2'', booking_class = ''AC 2 Tier'', booking_seat_no = ''A55'',
         booking_status = ''Confirmed''\<rparr>,
        \<lparr>booking_pnr = ''KKKK'', booking_passenger_id = ''KK'', booking_train_id = ''T1'',
         booking_fare_id = ''F2'', booking_class = ''AC 2 Tier'', booking_seat_no = ''A55'',
         booking_status = ''Confirmed''\<rparr>]
   \<and> payment_table (snd (createBooking example_booking_data example_world)) =
       [\<lparr>payment_pnr = ''KKK'', payment_amount = 1600, payment_method = ''UPI'',
         payment_status = ''Successful''\<rparr>]
   \<and> (\<exists>ps b bs fid.
         passenger_table (snd (createBooking example_booking_data example_world)) =
           passenger_table example_world @ ps
       \<and> length ps = 2
       \<and> booking_table (snd (createBooking example_booking_data example_world)) =
           booking_table example_world @ b # bs
       \<and> length (b # bs) = 2
       \<and> (\<forall>x \<in> set (b # bs). booking_fare_id x = fid)
       \<and> payment_table (snd (createBooking example_booking_data example_world)) =
           payment_table example_world @
             [\<lparr>payment_pnr = booking_pnr b, payment_amount = 1600, payment_method = ''UPI'',
               payment_status = ''Successful''\<rparr>]
       \<and> ''KKK'' = booking_pnr b)"
proof -
  let ?r = "createBooking example_booking_data example_world"
  have tables:
    "fst ?r = Inr ''KKK''"
    "passenger_table (snd ?r) =
       [\<lparr>passenger_id = ''K'', passenger_name = ''Asha'', passenger_age = 34,
         passenger_gender = ''F'', passenger_contact = ''asha@example.org''\<rparr>,
        \<lparr>passenger_id = ''KK'', passenger_name = ''Ravi'', passenger_age = 36,
         passenger_gender = ''M'', passenger_contact = ''ravi@example.org''\<rparr>]"
    "booking_table (snd ?r) =
       [\<lparr>booking_pnr = ''KKK'', booking_passenger_id = ''K'', booking_train_id = ''T1'',
         booking_fare_id = ''F2'', booking_class = ''AC 2 Tier'', booking_seat_no = ''A55'',
         booking_status = ''Confirmed''\<rparr>,
        \<lparr>booking_pnr = ''KKKK'', booking_passenger_id = ''KK'', booking_train_id = ''T1'',
         booking_fare_id = ''F2'', booking_class = ''AC 2 Tier'', booking_seat_no = ''A55'',
         booking_status = ''Confirmed''\<rparr>]"
    "payment_table (snd ?r) =
       [\<lparr>payment_pnr = ''KKK'', payment_amount = 1600, payment_method = ''UPI'',
         payment_status = ''Successful''\<rparr>]"
    by (simp_all add: createBooking_def createBooking_body_def insert_passenger_def
      resolve_fare_id_def select_fare_id_def insert_booking_def insert_payment_def request_def
      new_id_def random_def single_def quiet_world_def example_booking_data_def
      example_world_def seat_number_def number_to_string_def decimal.simps int4_minus_def
      int4_def Let_def)
  have run: "?r = (Inr ''KKK'', snd ?r)"
    using tables(1) by (metis prod.collapse)
  have some: "passengerData example_booking_data \<noteq> []"
    by (simp add: example_booking_data_def)
  from createBooking_rows [OF run some] obtain ps b bs fid where
    "passenger_table (snd ?r) = passenger_table example_world @ ps"
    "length ps = length (passengerData example_booking_data)"
    "booking_table (snd ?r) = booking_table example_world @ b # bs"
    "length (b # bs) = length (passengerData example_booking_data)"
    "\<forall>x \<in> set (b # bs). booking_fare_id x = fid \<and> booking_status x = ''Confirmed''"
    "payment_table (snd ?r) = payment_table example_world @
       [\<lparr>payment_pnr = booking_pnr b, payment_amount = totalAmount example_booking_data,
         payment_method = paymentMethod example_booking_data, payment_status = ''Successful''\<rparr>]"
    "''KKK'' = booking_pnr b"
    by blast
  then have "passenger_table (snd ?r) = passenger_table example_world @ ps
       \<and> length ps = 2
       \<and> booking_table (snd ?r) = booking_table example_world @ b # bs
       \<and> length (b # bs) = 2
       \<and> (\<forall>x \<in> set (b # bs). booking_fare_id x = fid)
       \<and> payment_table (snd ?r) =
           payment_table example_world @
             [\<lparr>payment_pnr = booking_pnr b, payment_amount = 1600, payment_method = ''UPI'',
               payment_status = ''Successful''\<rparr>]
       \<and> ''KKK'' = booking_pnr b"
    by (simp add: example_booking_data_def)
  then have "\<exists>ps b bs fid.
         passenger_table (snd ?r) = passenger_table example_world @ ps
       \<and> length ps = 2
       \<and> booking_table (snd ?r) = booking_table example_world @ b # bs
       \<and> length (b # bs) = 2
       \<and> (\<forall>x \<in> set (b # bs). booking_fare_id x = fid)
       \<and> payment_table (snd ?r) =
           payment_table example_world @
             [\<lparr>payment_pnr = booking_pnr b, payment_amount = 1600, payment_method = ''UPI'',
               payment_status = ''Successful''\<rparr>]
       \<and> ''KKK'' = booking_pnr b"
    by blast
  with tables show ?thesis by simp
qed

end
